theory Spec2Isabelle
  imports Complex_Main "HOL-Library.Word" "HOL-Library.AList"
begin

unbundle bit_operations_syntax

section \<open>Numbers\<close>

text \<open>
  The program is JavaScript. Its integers that go through the bitwise operators
  (\<open>|\<close>, \<open>^\<close>, \<open>>>>\<close>, \<open>Math.imul\<close>) are 32-bit words. Its other numbers are IEEE doubles;
  they are modelled by the real numbers they denote, so rounding of the floating-point
  operations is not modelled (it only occurs inside \<open>PerlinNoise.noise\<close>, in sums of
  tenths such as \<open>forestHealth -= 0.1\<close> and in products with the tax rate), and no
  value of the model is \<open>NaN\<close>. Tile coordinates and the world seed are integers, taken
  small enough for \<open>seed + x * 73856093\<close> and \<open>y * 19349663\<close> to be exact doubles
  (below \<open>2^53\<close>), where \<open>ToInt32\<close> is reduction modulo \<open>2^32\<close>.
\<close>

type_synonym int32 = "32 word"

section \<open>world.js: SeededRandom (Mulberry32)\<close>

text \<open>The only field of a \<open>SeededRandom\<close> is its seed; \<open>next\<close> starts with \<open>this.seed |= 0\<close>,
  so the constructor's number is kept as its \<open>ToInt32\<close> image.\<close>

definition SeededRandom :: "int \<Rightarrow> int32" where
  "SeededRandom n = word_of_int n"

text \<open>\<open>imul\<close> is \<open>Math.imul\<close>: the low 32 bits of the product.\<close>

definition imul :: "int32 \<Rightarrow> int32 \<Rightarrow> int32" where
  "imul a b = a * b"

text \<open>\<open>next_u32\<close> is the numerator \<open>(t ^ (t >>> 14)) >>> 0\<close> of the value \<open>next\<close> returns,
  with the updated seed.\<close>

definition next_u32 :: "int32 \<Rightarrow> nat \<times> int32" where
  "next_u32 seed0 =
     (let seed1 = seed0 + 0x6d2b79f5;
          t = imul (seed1 XOR drop_bit 15 seed1) (1 OR seed1);
          t2 = (t + imul (t XOR drop_bit 7 t) (61 OR t)) XOR t
      in (unat (t2 XOR drop_bit 14 t2), seed1))"

definition "next" :: "int32 \<Rightarrow> real \<times> int32" where
  "next seed0 = (case next_u32 seed0 of (u, seed1) \<Rightarrow> (real u / 4294967296, seed1))"

definition nextInt :: "int32 \<Rightarrow> int \<Rightarrow> int \<Rightarrow> int \<times> int32" where
  "nextInt seed0 mn mx =
     (case next seed0 of (r, seed1) \<Rightarrow> (\<lfloor>r * of_int (mx - mn + 1)\<rfloor> + mn, seed1))"

section \<open>world.js: PerlinNoise\<close>

record PerlinNoise =
  rng :: int32
  permutation :: "nat list"

text \<open>The Fisher-Yates loop of \<open>generatePermutation\<close>, \<open>for (i = 255; i > 0; i--)\<close>:
  the argument is \<open>i\<close>, the state the array and the generator.\<close>

fun shuffle :: "nat \<Rightarrow> nat list \<times> int32 \<Rightarrow> nat list \<times> int32" where
  "shuffle 0 (p, g) = (p, g)"
| "shuffle (Suc n) (p, g) =
     (case next g of (r, g1) \<Rightarrow>
        (let i = Suc n;
             j = nat \<lfloor>r * real (i + 1)\<rfloor>
         in shuffle n (p[i := p ! j, j := p ! i], g1)))"

definition generatePermutation :: "int32 \<Rightarrow> nat list \<times> int32" where
  "generatePermutation g = (case shuffle 255 ([0..<256], g) of (p, g1) \<Rightarrow> (p @ p, g1))"

definition new_PerlinNoise :: "int \<Rightarrow> PerlinNoise" where
  "new_PerlinNoise n =
     (case generatePermutation (SeededRandom n) of (p, g) \<Rightarrow> \<lparr>rng = g, permutation = p\<rparr>)"

definition fade :: "real \<Rightarrow> real" where
  "fade t = t * t * t * (t * (t * 6 - 15) + 10)"

definition lerp :: "real \<Rightarrow> real \<Rightarrow> real \<Rightarrow> real" where
  "lerp a b t = a + (b - a) * t"

definition grad :: "nat \<Rightarrow> real \<Rightarrow> real \<Rightarrow> real" where
  "grad hash x y =
     (let h = hash mod 16;
          u = (if h < 8 then x else y);
          v = (if h < 8 then y else x)
      in (if h mod 2 = 0 then u else - u) + (if (h div 2) mod 2 = 0 then v else - v))"

definition noise :: "PerlinNoise \<Rightarrow> real \<Rightarrow> real \<Rightarrow> real" where
  "noise pn x y =
     (let xi = nat (\<lfloor>x\<rfloor> mod 256);
          yi = nat (\<lfloor>y\<rfloor> mod 256);
          xf = x - of_int \<lfloor>x\<rfloor>;
          yf = y - of_int \<lfloor>y\<rfloor>;
          u = fade xf;
          v = fade yf;
          p = permutation pn;
          aa = p ! (p ! xi + yi);
          ab = p ! (p ! xi + yi + 1);
          ba = p ! (p ! (xi + 1) + yi);
          bb = p ! (p ! (xi + 1) + yi + 1);
          x1 = lerp (grad aa xf yf) (grad ba (xf - 1) yf) u;
          x2 = lerp (grad ab xf (yf - 1)) (grad bb (xf - 1) (yf - 1)) u
      in lerp x1 x2 v)"

section \<open>world.js: Tile\<close>

record resources =
  stone :: int
  iron :: int
  uranium :: int

text \<open>
  A structure is a JavaScript object that its tile and the economy's map both refer to, so
  a tile holds the address of the object in a store of structure objects (\<open>heap\<close> below).
  The fields \<open>x\<close>, \<open>y\<close> of the source are \<open>tile_x\<close>, \<open>tile_y\<close> here.
\<close>

type_synonym addr = nat

record Tile =
  tile_x :: int
  tile_y :: int
  altitude :: int
  resources :: resources
  "structure" :: "addr option"
  isForest :: bool
  forestHealth :: real

definition new_Tile :: "int \<Rightarrow> int \<Rightarrow> Tile" where
  "new_Tile px py =
     \<lparr>tile_x = px, tile_y = py, altitude = 0,
      resources = \<lparr>stone = 0, iron = 0, uranium = 0\<rparr>,
      structure = None, isForest = False, forestHealth = 0\<rparr>"

section \<open>world.js: World\<close>

text \<open>
  \<open>tiles\<close> is a JavaScript \<open>Map\<close> keyed by the string \<open>`${x},${y}`\<close>: an association
  list in insertion order, keyed by the pair of coordinates (the string is injective on
  integers). \<open>Map.set\<close> is \<open>AList.update\<close> (an existing key keeps its place, a new one
  goes last), \<open>Map.get\<close> is \<open>map_of\<close>, \<open>Map.delete\<close> is \<open>AList.delete\<close>.
\<close>

type_synonym key = "int \<times> int"

record World =
  seed :: int
  tiles :: "(key \<times> Tile) list"
  perlin :: PerlinNoise
  world_rng :: int32
  chunkSize :: nat
  generatedChunks :: "string list"

definition new_World :: "int \<Rightarrow> World" where
  "new_World n =
     \<lparr>seed = n, tiles = [], perlin = new_PerlinNoise n, world_rng = SeededRandom n,
      chunkSize = 16, generatedChunks = []\<rparr>"

text \<open>\<open>Math.round\<close> rounds half-way cases up.\<close>

definition Math_round :: "real \<Rightarrow> int" where
  "Math_round r = \<lfloor>r + 1 / 2\<rfloor>"

text \<open>\<open>this.seed + tile.x * a ^ tile.y * b\<close> parses as \<open>(seed + x * a) ^ (y * b)\<close>; the
  operands of \<open>^\<close> go through \<open>ToInt32\<close>.\<close>

definition tile_seed :: "int \<Rightarrow> int \<Rightarrow> int \<Rightarrow> int \<Rightarrow> int \<Rightarrow> int32" where
  "tile_seed n a b px py = word_of_int (n + px * a) XOR word_of_int (py * b)"

definition generateResources :: "World \<Rightarrow> Tile \<Rightarrow> Tile" where
  "generateResources w tile =
     (let g0 = tile_seed (seed w) 73856093 19349663 (tile_x tile) (tile_y tile) in
      case nextInt g0 50 150 of (st, g1) \<Rightarrow>
      (let tile1 = tile\<lparr>resources := (resources tile)\<lparr>stone := st\<rparr>\<rparr> in
       case (if \<bar>altitude tile1\<bar> < 5 then
               (case nextInt g1 20 80 of (v, g2) \<Rightarrow>
                  (tile1\<lparr>resources := (resources tile1)\<lparr>iron := v\<rparr>\<rparr>, g2))
             else if \<bar>altitude tile1\<bar> < 10 then
               (case nextInt g1 5 30 of (v, g2) \<Rightarrow>
                  (tile1\<lparr>resources := (resources tile1)\<lparr>iron := v\<rparr>\<rparr>, g2))
             else (tile1, g1)) of (tile2, g2) \<Rightarrow>
       (if \<bar>altitude tile2\<bar> < 3 then
          tile2\<lparr>resources := (resources tile2)\<lparr>uranium := fst (nextInt g2 1 10)\<rparr>\<rparr>
        else if \<bar>altitude tile2\<bar> < 8 then
          tile2\<lparr>resources := (resources tile2)\<lparr>uranium := fst (nextInt g2 0 5)\<rparr>\<rparr>
        else tile2)))"

definition generateForest :: "World \<Rightarrow> Tile \<Rightarrow> Tile" where
  "generateForest w tile =
     (let g0 = tile_seed (seed w) 83492791 39916801 (tile_x tile) (tile_y tile) in
      if altitude tile > - 3 then
        (let forestNoise = noise (perlin w) (of_int (tile_x tile) * 0.05) (of_int (tile_y tile) * 0.05) in
         if forestNoise > 0.3 \<and> fst (next g0) > 0.6 then
           tile\<lparr>isForest := True, forestHealth := of_int (fst (nextInt (snd (next g0)) 70 100))\<rparr>
         else tile)
      else tile)"

definition generateTile :: "World \<Rightarrow> int \<Rightarrow> int \<Rightarrow> Tile \<times> World" where
  "generateTile w px py =
     (let tile = new_Tile px py;
          noiseScale = 0.1;
          alt = noise (perlin w) (of_int px * noiseScale) (of_int py * noiseScale) * 30 - 10;
          tile1 = tile\<lparr>altitude := Math_round alt\<rparr>;
          tile2 = generateResources w tile1;
          tile3 = generateForest w tile2
      in (tile3, w\<lparr>tiles := AList.update (px, py) tile3 (tiles w)\<rparr>))"

definition getTile :: "World \<Rightarrow> int \<Rightarrow> int \<Rightarrow> Tile \<times> World" where
  "getTile w px py =
     (case map_of (tiles w) (px, py) of
        Some tile \<Rightarrow> (tile, w)
      | None \<Rightarrow> generateTile w px py)"

text \<open>The loops of \<open>getTiles\<close>: the inner one over \<open>dx\<close> for a row \<open>py\<close>, the outer one
  over \<open>dy\<close>. The accumulator is the array \<open>tiles\<close> and the world.\<close>

primrec getTiles_row :: "int \<Rightarrow> int \<Rightarrow> int list \<Rightarrow> Tile list \<times> World \<Rightarrow> Tile list \<times> World" where
  "getTiles_row centerX py [] acc = acc"
| "getTiles_row centerX py (dx # dxs) acc =
     (case acc of (ts, w) \<Rightarrow>
        (case getTile w (centerX + dx) py of (tile, w1) \<Rightarrow>
           getTiles_row centerX py dxs (ts @ [tile], w1)))"

primrec getTiles_rows :: "int \<Rightarrow> int \<Rightarrow> int \<Rightarrow> int list \<Rightarrow> Tile list \<times> World \<Rightarrow> Tile list \<times> World" where
  "getTiles_rows centerX centerY halfGrid [] acc = acc"
| "getTiles_rows centerX centerY halfGrid (dy # dys) acc =
     getTiles_rows centerX centerY halfGrid dys
       (getTiles_row centerX (centerY + dy) [- halfGrid .. halfGrid] acc)"

definition getTiles :: "World \<Rightarrow> int \<Rightarrow> int \<Rightarrow> int \<Rightarrow> Tile list \<times> World" where
  "getTiles w centerX centerY gridSize =
     (let halfGrid = gridSize div 2
      in getTiles_rows centerX centerY halfGrid [- halfGrid .. halfGrid] ([], w))"


text \<open>
  \<open>limits[structureType] || 1\<close> and the two tables of economy.js are object literals
  indexed by an arbitrary string: besides the four own keys, the names of the members
  that every object inherits from \<open>Object.prototype\<close> resolve too, to a function or an
  object, which is truthy, so that the fallback after \<open>||\<close> is not taken.
\<close>

definition Object_prototype_members :: "string list" where
  "Object_prototype_members =
     [''constructor'', ''hasOwnProperty'', ''isPrototypeOf'', ''propertyIsEnumerable'',
      ''toLocaleString'', ''toString'', ''valueOf'', ''__proto__'',
      ''__defineGetter__'', ''__defineSetter__'', ''__lookupGetter__'', ''__lookupSetter__'']"

definition inherited :: "string \<Rightarrow> bool" where
  "inherited k = (k \<in> set Object_prototype_members)"

text \<open>\<open>None\<close> is an inherited member: as a number it is \<open>NaN\<close>.\<close>

definition getMaxAltitudeDiff :: "string \<Rightarrow> int option" where
  "getMaxAltitudeDiff structureType =
     (if structureType = ''house'' then Some 1
      else if structureType = ''farm'' then Some 1
      else if structureType = ''mine'' then Some 3
      else if structureType = ''lumber'' then Some 2
      else if inherited structureType then None
      else Some 1)"

datatype BuildCheck = CanBuild | CannotBuild string

text \<open>A comparison with \<open>NaN\<close> is false.\<close>

definition too_steep :: "int option \<Rightarrow> Tile \<Rightarrow> Tile \<Rightarrow> bool" where
  "too_steep maxAltitudeDiff tile neighbor =
     (case maxAltitudeDiff of
        None \<Rightarrow> False
      | Some m \<Rightarrow> \<bar>altitude neighbor - altitude tile\<bar> > m)"

definition canBuildStructure :: "World \<Rightarrow> Tile \<Rightarrow> string \<Rightarrow> BuildCheck \<times> World" where
  "canBuildStructure w tile structureType =
     (if altitude tile < 0 then (CannotBuild ''Cannot build on water'', w)
      else if isForest tile then (CannotBuild ''Cannot build on forest'', w)
      else
        case getTile w (tile_x tile - 1) (tile_y tile) of (n1, w1) \<Rightarrow>
        case getTile w1 (tile_x tile + 1) (tile_y tile) of (n2, w2) \<Rightarrow>
        case getTile w2 (tile_x tile) (tile_y tile - 1) of (n3, w3) \<Rightarrow>
        case getTile w3 (tile_x tile) (tile_y tile + 1) of (n4, w4) \<Rightarrow>
          (if list_ex (too_steep (getMaxAltitudeDiff structureType) tile) [n1, n2, n3, n4]
           then (CannotBuild (''Terrain too steep for '' @ structureType), w4)
           else (CanBuild, w4)))"

section \<open>economy.js: GameState\<close>

record Message =
  msg_text :: string
  msg_type :: string
  msg_time :: int

record GameState =
  money :: real
  food :: real
  wood :: real
  population :: real
  employed :: real
  incomeTaxRate :: real
  time :: int
  messages :: "Message list"

definition new_GameState :: GameState where
  "new_GameState =
     \<lparr>money = 500, food = 50, wood = 100, population = 0, employed = 0,
      incomeTaxRate = 0.1, time = 0, messages = []\<rparr>"

text \<open>\<open>push\<close>, then \<open>shift\<close> when more than ten messages are held.\<close>

definition GameState_addMessage :: "GameState \<Rightarrow> string \<Rightarrow> string \<Rightarrow> GameState" where
  "GameState_addMessage gs txt ty =
     (let ms = messages gs @ [\<lparr>msg_text = txt, msg_type = ty, msg_time = time gs\<rparr>]
      in gs\<lparr>messages := (if length ms > 10 then tl ms else ms)\<rparr>)"

section \<open>economy.js: Economy\<close>

text \<open>
  The \<open>data\<close> object of a structure has one of five shapes, chosen from its type when it
  is built and never changed afterwards.
\<close>

datatype StructureData =
    HouseData (residents: real) (capacity: real)
  | FarmData (production: real) (foodPerTick: real)
  | MineData (resourceLevel: string) (extractedStone: real)
  | LumberData (woodPerTick: real)
  | EmptyData

record Structure =
  struct_type :: string
  struct_x :: int
  struct_y :: int
  level :: real
  data :: StructureData

text \<open>
  An \<open>Economy\<close> refers to its game state and its world, which nothing else owns; they are
  fields here. \<open>structures\<close> is a \<open>Map\<close> from the key of a tile to a structure object,
  in insertion order; \<open>heap\<close> is the store of all structure objects, an object's address
  being its index.
\<close>

record Economy =
  gameState :: GameState
  world :: World
  structures :: "(key \<times> addr) list"
  heap :: "Structure list"

definition new_Economy :: "GameState \<Rightarrow> World \<Rightarrow> Structure list \<Rightarrow> Economy" where
  "new_Economy gs w h = \<lparr>gameState = gs, world = w, structures = [], heap = h\<rparr>"

definition addMessage :: "Economy \<Rightarrow> string \<Rightarrow> string \<Rightarrow> Economy" where
  "addMessage e txt ty = e\<lparr>gameState := GameState_addMessage (gameState e) txt ty\<rparr>"

record Costs =
  cost_money :: real
  cost_wood :: real
  cost_food :: real

text \<open>\<open>None\<close> is an inherited member of the table: its \<open>money\<close>, \<open>wood\<close> and \<open>food\<close>
  are \<open>undefined\<close>.\<close>

definition getStructureCost :: "string \<Rightarrow> Costs option" where
  "getStructureCost structureType =
     (if structureType = ''house'' then Some \<lparr>cost_money = 100, cost_wood = 50, cost_food = 0\<rparr>
      else if structureType = ''farm'' then Some \<lparr>cost_money = 80, cost_wood = 30, cost_food = 10\<rparr>
      else if structureType = ''mine'' then Some \<lparr>cost_money = 120, cost_wood = 60, cost_food = 0\<rparr>
      else if structureType = ''lumber'' then Some \<lparr>cost_money = 50, cost_wood = 20, cost_food = 0\<rparr>
      else if inherited structureType then None
      else Some \<lparr>cost_money = 0, cost_wood = 0, cost_food = 0\<rparr>)"

definition getDefaultStructureData :: "string \<Rightarrow> StructureData option" where
  "getDefaultStructureData structureType =
     (if structureType = ''house'' then Some (HouseData 0 5)
      else if structureType = ''farm'' then Some (FarmData 0 0.5)
      else if structureType = ''mine'' then Some (MineData ''stone'' 0)
      else if structureType = ''lumber'' then Some (LumberData 0.5)
      else if inherited structureType then None
      else Some EmptyData)"

text \<open>Decimal digits of an integer, as a template literal prints it.\<close>

definition digit :: "nat \<Rightarrow> char" where
  "digit d = char_of (d + 48)"

fun decimal :: "nat \<Rightarrow> string" where
  "decimal n = (if 10 \<le> n then decimal (n div 10) @ [digit (n mod 10)] else [digit n])"

definition number_text :: "int \<Rightarrow> string" where
  "number_text i = (if 0 \<le> i then decimal (nat i) else CHR ''-'' # decimal (nat (- i)))"

text \<open>A tile object is reached through the world's map only; writing a field of the
  tile with coordinates \<open>k\<close> replaces the entry of \<open>k\<close>.\<close>

definition set_tile :: "World \<Rightarrow> Tile \<Rightarrow> World" where
  "set_tile w tile = w\<lparr>tiles := AList.update (tile_x tile, tile_y tile) tile (tiles w)\<rparr>"

datatype BuildResult = Success addr | Failure string

text \<open>
  With the costs of an inherited member the three comparisons are with \<open>undefined\<close> and
  fail to reject, and \<open>money\<close>, \<open>wood\<close> and \<open>food\<close> become \<open>NaN\<close>, which is no value of this
  model: \<open>buildStructure\<close> answers \<open>Inl NaN_stored\<close> where the source goes on with them.
\<close>

datatype model_error = NaN_stored

definition less_cost :: "real \<Rightarrow> Costs option \<Rightarrow> (Costs \<Rightarrow> real) \<Rightarrow> bool" where
  "less_cost have costs field = (case costs of None \<Rightarrow> False | Some c \<Rightarrow> have < field c)"

definition buildStructure :: "Economy \<Rightarrow> Tile \<Rightarrow> string \<Rightarrow> model_error + BuildResult \<times> Economy" where
  "buildStructure e tile structureType =
     (let costs = getStructureCost structureType in
      if less_cost (money (gameState e)) costs cost_money then Inr (Failure ''Not enough money'', e)
      else if less_cost (wood (gameState e)) costs cost_wood then Inr (Failure ''Not enough wood'', e)
      else if less_cost (food (gameState e)) costs cost_food then Inr (Failure ''Not enough food'', e)
      else
        case canBuildStructure (world e) tile structureType of (buildCheck, w1) \<Rightarrow>
        (let e1 = e\<lparr>world := w1\<rparr> in
         case buildCheck of
           CannotBuild reason \<Rightarrow> Inr (Failure reason, e1)
         | CanBuild \<Rightarrow>
             if structure tile \<noteq> None then Inr (Failure ''Tile already occupied'', e1)
             else
               (case (costs, getDefaultStructureData structureType) of
                  (Some c, Some d) \<Rightarrow>
                    (let gs = (gameState e1)\<lparr>money := money (gameState e1) - cost_money c,
                                              wood := wood (gameState e1) - cost_wood c,
                                              food := food (gameState e1) - cost_food c\<rparr>;
                         st = \<lparr>struct_type = structureType, struct_x = tile_x tile,
                               struct_y = tile_y tile, level = 1, data = d\<rparr>;
                         a = length (heap e1);
                         e2 = e1\<lparr>gameState := gs,
                                 heap := heap e1 @ [st],
                                 world := set_tile (world e1) (tile\<lparr>structure := Some a\<rparr>),
                                 structures := AList.update (tile_x tile, tile_y tile) a (structures e1)\<rparr>;
                         e3 = addMessage e2
                                (''Built '' @ structureType @ '' at ('' @ number_text (tile_x tile)
                                   @ '', '' @ number_text (tile_y tile) @ '')'') ''success''
                     in Inr (Success a, e3))
                | _ \<Rightarrow> Inl NaN_stored)))"

definition destroyStructure :: "Economy \<Rightarrow> int \<Rightarrow> int \<Rightarrow> Economy" where
  "destroyStructure e px py =
     (case map_of (structures e) (px, py) of
        None \<Rightarrow> e
      | Some a \<Rightarrow>
          (case getTile (world e) px py of (tile, w1) \<Rightarrow>
             e\<lparr>structures := AList.delete (px, py) (structures e),
               world := set_tile w1 (tile\<lparr>structure := None\<rparr>)\<rparr>))"

definition getStructureAtTile :: "Economy \<Rightarrow> Tile \<Rightarrow> addr option" where
  "getStructureAtTile e tile = map_of (structures e) (tile_x tile, tile_y tile)"

definition getAllStructures :: "Economy \<Rightarrow> addr list" where
  "getAllStructures e = map snd (structures e)"

subsection \<open>Economy.tick\<close>

text \<open>
  The assignment \<open>structure.data.foodPerTick = v\<close>. The structure is a farm, whose data
  were made by \<open>getDefaultStructureData\<close> with both fields.
\<close>

definition set_foodPerTick :: "real \<Rightarrow> StructureData \<Rightarrow> StructureData" where
  "set_foodPerTick v d = (case d of FarmData p f \<Rightarrow> FarmData p v | _ \<Rightarrow> d)"

text \<open>
  The first loop of \<open>tick\<close>, \<open>for (let structure of this.structures.values())\<close>, runs
  over the live map while \<open>destroyStructure\<close> deletes from it: the first argument is the
  part of the map still to visit, from which a deleted key disappears as well. The
  accumulator is the economy with \<open>farmIncome\<close> and \<open>farmCount\<close>.
\<close>

function tick_farms :: "(key \<times> addr) list \<Rightarrow> Economy \<times> real \<times> nat \<Rightarrow> Economy \<times> real \<times> nat" where
  "tick_farms [] acc = acc"
| "tick_farms ((k, a) # rest) (e, farmIncome, farmCount) =
     (if struct_type (heap e ! a) = ''farm'' then
        (if 10 - 10 * incomeTaxRate (gameState e) \<le> 0 then
           tick_farms (AList.delete (struct_x (heap e ! a), struct_y (heap e ! a)) rest)
             (addMessage (destroyStructure e (struct_x (heap e ! a)) (struct_y (heap e ! a)))
                ''Farm went bankrupt due to high taxes'' ''error'',
              farmIncome, farmCount)
         else
           tick_farms rest
             (e\<lparr>heap := (heap e)[a := (heap e ! a)\<lparr>data :=
                   set_foodPerTick (1 + 0.5 * (level (heap e ! a) - 1)) (data (heap e ! a))\<rparr>]\<rparr>,
              farmIncome + (10 - 10 * incomeTaxRate (gameState e)), farmCount + 1))
      else tick_farms rest (e, farmIncome, farmCount))"
  by pat_completeness auto
termination
  by (relation "measure (\<lambda>(l, acc). length l)") (auto simp: AList.delete_eq less_Suc_eq_le)

definition tick_income :: "Economy \<Rightarrow> Economy" where
  "tick_income e =
     (case tick_farms (structures e) (e, 0, 0) of (e1, farmIncome, farmCount) \<Rightarrow>
        e1\<lparr>gameState := (gameState e1)\<lparr>money := money (gameState e1) + farmIncome\<rparr>\<rparr>)"

definition tick_consume :: "Economy \<Rightarrow> Economy" where
  "tick_consume e =
     (let foodConsumption = population (gameState e) * 0.5
      in e\<lparr>gameState := (gameState e)\<lparr>food := food (gameState e) - foodConsumption\<rparr>\<rparr>)"

definition tick_starve :: "Economy \<Rightarrow> Economy" where
  "tick_starve e =
     (if food (gameState e) < 0 then
        (let leavers = \<lceil>- food (gameState e) / 5\<rceil>;
             gs = (gameState e)\<lparr>population := population (gameState e)
                                    - min (of_int leavers) (population (gameState e)),
                                  food := 0\<rparr>;
             e1 = e\<lparr>gameState := gs\<rparr>
         in if leavers > 0
            then addMessage e1 (number_text leavers @ '' people left due to hunger'') ''warning''
            else e1)
      else e)"

definition totalHouseCapacity :: "Economy \<Rightarrow> real" where
  "totalHouseCapacity e =
     fold (\<lambda>a total. if struct_type (heap e ! a) = ''house''
                      then total + capacity (data (heap e ! a)) else total)
       (map snd (structures e)) 0"

definition tick_grow :: "Economy \<Rightarrow> Economy" where
  "tick_grow e =
     (if population (gameState e) < totalHouseCapacity e \<and> food (gameState e) > 50 then
        (let newPeople = min 2 (totalHouseCapacity e - population (gameState e))
         in e\<lparr>gameState := (gameState e)\<lparr>population := population (gameState e) + newPeople\<rparr>\<rparr>)
      else e)"

text \<open>The offsets \<open>-r .. r\<close> of a scan, for \<open>dx\<close> in the outer loop and \<open>dy\<close> in the inner one.\<close>

definition scan_coords :: "int \<Rightarrow> int \<Rightarrow> int \<Rightarrow> key list" where
  "scan_coords cx cy r = concat (map (\<lambda>dx. map (\<lambda>dy. (cx + dx, cy + dy)) [- r .. r]) [- r .. r])"

definition count_forest :: "key \<Rightarrow> nat \<times> World \<Rightarrow> nat \<times> World" where
  "count_forest k acc =
     (case acc of (forestCount, w) \<Rightarrow>
        (case getTile w (fst k) (snd k) of (tile, w1) \<Rightarrow>
           (if isForest tile \<and> forestHealth tile > 0 then forestCount + 1 else forestCount, w1)))"

text \<open>The inner loop of the damage scan, over \<open>dy\<close> for a column \<open>px\<close>; it ends at the
  \<open>break\<close>.\<close>

primrec damage_column :: "int \<Rightarrow> int \<Rightarrow> int list \<Rightarrow> World \<Rightarrow> World" where
  "damage_column px cy [] w = w"
| "damage_column px cy (dy # dys) w =
     (case getTile w px (cy + dy) of (tile, w1) \<Rightarrow>
        (if isForest tile \<and> forestHealth tile > 0 then
           (let tile1 = tile\<lparr>forestHealth := forestHealth tile - 0.1\<rparr> in
            if forestHealth tile1 \<le> 0 then set_tile w1 (tile1\<lparr>isForest := False\<rparr>)
            else damage_column px cy dys (set_tile w1 tile1))
         else damage_column px cy dys w1))"

definition damage_forests :: "int \<Rightarrow> int \<Rightarrow> World \<Rightarrow> World" where
  "damage_forests cx cy w = fold (\<lambda>dx. damage_column (cx + dx) cy [- 8 .. 8]) [- 8 .. 8] w"

definition tick_lumber :: "addr \<Rightarrow> Economy \<Rightarrow> Economy" where
  "tick_lumber a e =
     (let lumber = heap e ! a in
      case fold count_forest (scan_coords (struct_x lumber) (struct_y lumber) 8) (0, world e)
      of (forestCount, w1) \<Rightarrow>
        (if forestCount > 0 then
           (let woodPerTick = 0.5 * level lumber
            in e\<lparr>gameState := (gameState e)\<lparr>wood := wood (gameState e) + woodPerTick\<rparr>,
                 world := damage_forests (struct_x lumber) (struct_y lumber) w1\<rparr>)
         else e\<lparr>world := w1\<rparr>))"

definition tick_lumbers :: "Economy \<Rightarrow> Economy" where
  "tick_lumbers e =
     (let lumberStructures = filter (\<lambda>a. struct_type (heap e ! a) = ''lumber'') (map snd (structures e))
      in fold tick_lumber lumberStructures e)"

definition sum_resources :: "key \<Rightarrow> resources \<times> World \<Rightarrow> resources \<times> World" where
  "sum_resources k acc =
     (case acc of (resourcesAvailable, w) \<Rightarrow>
        (case getTile w (fst k) (snd k) of (tile, w1) \<Rightarrow>
           (\<lparr>stone = stone resourcesAvailable + stone (resources tile),
             iron = iron resourcesAvailable + iron (resources tile),
             uranium = uranium resourcesAvailable + uranium (resources tile)\<rparr>, w1)))"

text \<open>\<open>tickMine(mine)\<close>: the mine is the object at address \<open>a\<close>. Data without a
  \<open>resourceLevel\<close> match none of the three branches.\<close>

definition tickMine :: "Economy \<Rightarrow> addr \<Rightarrow> Economy" where
  "tickMine e a =
     (let mine = heap e ! a in
      case fold sum_resources (scan_coords (struct_x mine) (struct_y mine) 4)
             (\<lparr>stone = 0, iron = 0, uranium = 0\<rparr>, world e)
      of (resourcesAvailable, w1) \<Rightarrow>
        (let e1 = e\<lparr>world := w1\<rparr> in
         case data mine of
           MineData rl extracted \<Rightarrow>
             if rl = ''stone'' \<and> stone resourcesAvailable > 0 then
               (let mined = min 1 (of_int (stone resourcesAvailable));
                    e2 = e1\<lparr>gameState := (gameState e1)\<lparr>wood := wood (gameState e1) + mined * 0.5\<rparr>\<rparr>
                in if extracted + mined \<ge> 100 then
                     addMessage (e2\<lparr>heap := (heap e2)[a := mine\<lparr>data := MineData ''iron'' 0\<rparr>]\<rparr>)
                       ''Mine upgraded to iron extraction'' ''success''
                   else e2\<lparr>heap := (heap e2)[a := mine\<lparr>data := MineData rl (extracted + mined)\<rparr>]\<rparr>)
             else if rl = ''iron'' \<and> iron resourcesAvailable > 0 then
               (let mined = min 0.5 (of_int (iron resourcesAvailable));
                    e2 = e1\<lparr>gameState := (gameState e1)\<lparr>wood := wood (gameState e1) + mined * 1.0\<rparr>\<rparr>
                in if extracted + mined \<ge> 100 then
                     addMessage (e2\<lparr>heap := (heap e2)[a := mine\<lparr>data := MineData ''uranium'' 0\<rparr>]\<rparr>)
                       ''Mine upgraded to uranium extraction'' ''success''
                   else e2\<lparr>heap := (heap e2)[a := mine\<lparr>data := MineData rl (extracted + mined)\<rparr>]\<rparr>)
             else if rl = ''uranium'' \<and> uranium resourcesAvailable > 0 then
               (let mined = min 0.2 (of_int (uranium resourcesAvailable))
                in e1\<lparr>gameState := (gameState e1)\<lparr>wood := wood (gameState e1) + mined * 2.0\<rparr>\<rparr>)
             else e1
         | _ \<Rightarrow> e1))"

definition tick_mines :: "Economy \<Rightarrow> Economy" where
  "tick_mines e =
     fold (\<lambda>a e1. if struct_type (heap e1 ! a) = ''mine'' then tickMine e1 a else e1)
       (map snd (structures e)) e"

definition tick :: "Economy \<Rightarrow> Economy" where
  "tick e = tick_mines (tick_lumbers (tick_grow (tick_starve (tick_consume (tick_income e)))))"

section \<open>Serialization (toJSON, fromJSON) and game.js\<close>

datatype GameStateJSON = GameStateJSON real real real real real real int





definition GameState_toJSON :: "GameState \<Rightarrow> GameStateJSON" where
  "GameState_toJSON gs =
     GameStateJSON (money gs) (food gs) (wood gs) (population gs) (employed gs)
       (incomeTaxRate gs) (time gs)"




text \<open>game.js. A \<open>Game\<close> holds a world, a game state and the economy that refers to both,
  which is the record \<open>Economy\<close>; \<open>saveGame\<close> writes the seed the world was made from.\<close>

definition new_Game :: "int \<Rightarrow> Economy" where
  "new_Game n = new_Economy new_GameState (new_World n) []"





section \<open>Definitions used in the statements\<close>

text \<open>The resources that \<open>generateTile\<close> gives the tile at \<open>(px, py)\<close> when its altitude
  is \<open>a\<close>: \<open>generateResources\<close> receives a new tile with the altitude set.\<close>

definition resources_of :: "World \<Rightarrow> int \<Rightarrow> int \<Rightarrow> int \<Rightarrow> resources" where
  "resources_of w px py a = resources (generateResources w ((new_Tile px py)\<lparr>altitude := a\<rparr>))"

text \<open>The tile's own generator after \<open>n\<close> draws.\<close>

definition resource_rng :: "World \<Rightarrow> int \<Rightarrow> int \<Rightarrow> nat \<Rightarrow> int32" where
  "resource_rng w px py n = ((\<lambda>g. snd (next g)) ^^ n) (tile_seed (seed w) 73856093 19349663 px py)"

text \<open>The world after the tiles at \<open>ks\<close> were requested with \<open>getTile\<close>, in this order.\<close>

definition visit :: "key list \<Rightarrow> World \<Rightarrow> World" where
  "visit ks w = fold (\<lambda>k w1. snd (getTile w1 (fst k) (snd k))) ks w"

text \<open>A world of seed \<open>s\<close> whose stored tiles are as generated.\<close>

definition pure_world :: "int \<Rightarrow> World \<Rightarrow> bool" where
  "pure_world s w = (seed w = s \<and> perlin w = new_PerlinNoise s \<and>
     (\<forall>k t. map_of (tiles w) k = Some t \<longrightarrow> t = fst (generateTile (new_World s) (fst k) (snd k))))"

text \<open>
  The preconditions of a build as the specification lists them, each with the reason given
  when it fails: \<open>c\<close> are the costs and \<open>m\<close> the greatest altitude difference of the type.
\<close>

definition neighbors_of :: "World \<Rightarrow> Tile \<Rightarrow> Tile list" where
  "neighbors_of w tile =
     [fst (getTile w (tile_x tile - 1) (tile_y tile)), fst (getTile w (tile_x tile + 1) (tile_y tile)),
      fst (getTile w (tile_x tile) (tile_y tile - 1)), fst (getTile w (tile_x tile) (tile_y tile + 1))]"

definition build_checks :: "Economy \<Rightarrow> Tile \<Rightarrow> string \<Rightarrow> Costs \<Rightarrow> int \<Rightarrow> (bool \<times> string) list" where
  "build_checks e tile structureType c m =
     [(money (gameState e) \<ge> cost_money c, ''Not enough money''),
      (wood (gameState e) \<ge> cost_wood c, ''Not enough wood''),
      (food (gameState e) \<ge> cost_food c, ''Not enough food''),
      (\<not> altitude tile < 0, ''Cannot build on water''),
      (\<not> isForest tile, ''Cannot build on forest''),
      (list_all (\<lambda>n. \<bar>altitude n - altitude tile\<bar> \<le> m) (neighbors_of (world e) tile),
       ''Terrain too steep for '' @ structureType),
      (structure tile = None, ''Tile already occupied'')]"

definition first_failure :: "(bool \<times> string) list \<Rightarrow> string option" where
  "first_failure checks = map_option snd (find (\<lambda>c. \<not> fst c) checks)"

definition build_outcome :: "Economy \<Rightarrow> Tile \<Rightarrow> string \<Rightarrow> BuildResult option" where
  "build_outcome e tile structureType =
     (case buildStructure e tile structureType of Inl err \<Rightarrow> None | Inr r \<Rightarrow> Some (fst r))"

text \<open>The food stock after the consumption stage of a tick.\<close>

definition food_after_consumption :: "Economy \<Rightarrow> real" where
  "food_after_consumption e = food (gameState e) - population (gameState e) * 0.5"

text \<open>The key under which the map holds a tile: its own coordinates.\<close>

definition tile_key :: "Tile \<Rightarrow> key" where
  "tile_key t = (tile_x t, tile_y t)"

text \<open>A world whose map has one entry for a key, each tile under its own coordinates: so
  are the maps that \<open>generateTile\<close> and \<open>World.fromJSON\<close> fill.\<close>

definition wf_world :: "World \<Rightarrow> bool" where
  "wf_world w = (distinct (map fst (tiles w)) \<and> list_all (\<lambda>kt. tile_key (snd kt) = fst kt) (tiles w))"

text \<open>
  The ways in which the operations change a world: they request tiles, and they write to a
  tile they have requested; \<open>T\<close> relates the tile before a write to the tile written.
\<close>

inductive evolves :: "(Tile \<Rightarrow> Tile \<Rightarrow> bool) \<Rightarrow> World \<Rightarrow> World \<Rightarrow> bool" for T where
  ev_refl: "evolves T w w"
| ev_get: "evolves T w w1 \<Longrightarrow> evolves T w (snd (getTile w1 px py))"
| ev_set: "evolves T w w1 \<Longrightarrow> map_of (tiles w1) (tile_key t) = Some t0 \<Longrightarrow> T t0 t
            \<Longrightarrow> evolves T w (set_tile w1 t)"

text \<open>The square of half-width \<open>h\<close> around \<open>(cx, cy)\<close>, row by row from its top-left corner.\<close>

definition region_coords :: "int \<Rightarrow> int \<Rightarrow> int \<Rightarrow> key list" where
  "region_coords cx cy h = concat (map (\<lambda>dy. map (\<lambda>dx. (cx + dx, cy + dy)) [- h .. h]) [- h .. h])"

text \<open>The tiles that \<open>getTile\<close> returns at the keys \<open>ks\<close>.\<close>

definition tiles_at :: "World \<Rightarrow> key list \<Rightarrow> Tile list" where
  "tiles_at w ks = map (\<lambda>k. fst (getTile w (fst k) (snd k))) ks"

text \<open>The forest invariant of a tile.\<close>

definition forest_ok :: "Tile \<Rightarrow> bool" where
  "forest_ok t = (isForest t \<longrightarrow> forestHealth t > 0)"

text \<open>What a tick and a demolition may do to a tile: clear its structure and change its
  forest fields, keeping the forest invariant where it held.\<close>

definition T_tick :: "Tile \<Rightarrow> Tile \<Rightarrow> bool" where
  "T_tick t t' =
     (tile_x t' = tile_x t \<and> tile_y t' = tile_y t \<and> altitude t' = altitude t
      \<and> resources t' = resources t \<and> (structure t' = structure t \<or> structure t' = None)
      \<and> (forest_ok t \<longrightarrow> forest_ok t'))"

text \<open>What the lumber stage may do to a tile: nothing, or lower the health of a forest of
  positive health, which stays a forest exactly when its health stays positive.\<close>

definition T_lumber :: "Tile \<Rightarrow> Tile \<Rightarrow> bool" where
  "T_lumber t t' =
     (t' = t \<or>
      (isForest t \<and> 0 < forestHealth t \<and> forestHealth t' < forestHealth t
       \<and> isForest t' = (0 < forestHealth t')
       \<and> tile_x t' = tile_x t \<and> tile_y t' = tile_y t \<and> altitude t' = altitude t
       \<and> resources t' = resources t \<and> structure t' = structure t))"


text \<open>Data of the same shape: the same fields.\<close>

definition same_shape :: "StructureData \<Rightarrow> StructureData \<Rightarrow> bool" where
  "same_shape d d' =
     (case d of
        HouseData r c \<Rightarrow> (case d' of HouseData r' c' \<Rightarrow> True | _ \<Rightarrow> False)
      | FarmData p f \<Rightarrow> (case d' of FarmData p' f' \<Rightarrow> True | _ \<Rightarrow> False)
      | MineData l x \<Rightarrow> (case d' of MineData l' x' \<Rightarrow> True | _ \<Rightarrow> False)
      | LumberData v \<Rightarrow> (case d' of LumberData v' \<Rightarrow> True | _ \<Rightarrow> False)
      | EmptyData \<Rightarrow> (case d' of EmptyData \<Rightarrow> True | _ \<Rightarrow> False))"

text \<open>A structure whose data have the shape that \<open>getDefaultStructureData\<close> gives its type.\<close>

definition shape_ok :: "Structure \<Rightarrow> bool" where
  "shape_ok st =
     (case getDefaultStructureData (struct_type st) of None \<Rightarrow> False | Some d \<Rightarrow> same_shape (data st) d)"

text \<open>An entry of the map of structures: the object is in the store, it is well shaped and
  the key is that of its coordinates.\<close>

definition wf_entry :: "Structure list \<Rightarrow> key \<times> addr \<Rightarrow> bool" where
  "wf_entry h ka =
     (snd ka < length h \<and> (struct_x (h ! snd ka), struct_y (h ! snd ka)) = fst ka \<and> shape_ok (h ! snd ka))"

text \<open>A well-formed economy: a well-formed world, and a map of structures with one entry for
  a key, as \<open>buildStructure\<close> and \<open>Economy.fromJSON\<close> fill it.\<close>

definition wf_economy :: "Economy \<Rightarrow> bool" where
  "wf_economy e =
     (wf_world (world e) \<and> distinct (map fst (structures e)) \<and> list_all (wf_entry (heap e)) (structures e))"

text \<open>What the operations do to the store of structures: they add objects, and they change the
  data of an object, keeping their shape.\<close>

definition heap_step :: "Structure list \<Rightarrow> Structure list \<Rightarrow> bool" where
  "heap_step h h' =
     (length h \<le> length h' \<and>
      (\<forall>a < length h. struct_type (h' ! a) = struct_type (h ! a) \<and> struct_x (h' ! a) = struct_x (h ! a)
         \<and> struct_y (h' ! a) = struct_y (h ! a) \<and> level (h' ! a) = level (h ! a)
         \<and> same_shape (data (h' ! a)) (data (h ! a))))"

text \<open>A stone mine one unit below the upgrade, at \<open>(0, - 5)\<close> in the world of seed 3.\<close>

definition mine_economy :: Economy where
  "mine_economy =
     \<lparr>gameState = new_GameState, world = new_World 3, structures = [((0, - 5), 0)],
      heap = [\<lparr>struct_type = ''mine'', struct_x = 0, struct_y = - 5, level = 1,
               data = MineData ''stone'' 99\<rparr>]\<rparr>"









text \<open>The entries of farms in a map of structures, and the net income of a farm.\<close>

definition is_farm :: "Structure list \<Rightarrow> key \<times> addr \<Rightarrow> bool" where
  "is_farm h ka = (struct_type (h ! snd ka) = ''farm'')"

definition farms :: "Economy \<Rightarrow> (key \<times> addr) list" where
  "farms e = filter (is_farm (heap e)) (structures e)"

definition netIncome :: "Economy \<Rightarrow> real" where
  "netIncome e = 10 - 10 * incomeTaxRate (gameState e)"

text \<open>A stored tile without structure.\<close>

definition cleared :: "World \<Rightarrow> key \<Rightarrow> bool" where
  "cleared w k = (case map_of (tiles w) k of None \<Rightarrow> False | Some t \<Rightarrow> structure t = None)"

text \<open>What the farm loop does to the object of a solvent farm.\<close>

definition farm_update :: "key \<times> addr \<Rightarrow> Structure list \<Rightarrow> Structure list" where
  "farm_update ka h =
     (if is_farm h ka
      then h[snd ka := (h ! snd ka)\<lparr>data := set_foodPerTick (1 + 0.5 * (level (h ! snd ka) - 1)) (data (h ! snd ka))\<rparr>]
      else h)"

text \<open>The stages of a tick after the farm income.\<close>

definition tick_rest :: "Economy \<Rightarrow> Economy" where
  "tick_rest e = tick_mines (tick_lumbers (tick_grow (tick_starve (tick_consume e))))"

text \<open>A farm at \<open>(0, - 5)\<close> in the world of seed 3, under a tax of 100% and of 10%.\<close>

definition farm_economy :: "real \<Rightarrow> Economy" where
  "farm_economy r =
     \<lparr>gameState = new_GameState\<lparr>incomeTaxRate := r\<rparr>,
      world = (new_World 3)\<lparr>tiles := [((0, - 5), (fst (generateTile (new_World 3) 0 (- 5)))\<lparr>structure := Some 0\<rparr>)]\<rparr>,
      structures = [((0, - 5), 0)],
      heap = [\<lparr>struct_type = ''farm'', struct_x = 0, struct_y = - 5, level = 1, data = FarmData 0 0.5\<rparr>]\<rparr>"

text \<open>A land tile of altitude \<open>a\<close>, and a game whose world holds a level tile at \<open>(0, - 5)\<close>
  with its four neighbours, as a save gives them to \<open>World.fromJSON\<close>.\<close>

definition land_tile :: "int \<Rightarrow> int \<Rightarrow> int \<Rightarrow> Tile" where
  "land_tile px py a = (new_Tile px py)\<lparr>altitude := a\<rparr>"

definition land_game :: Economy where
  "land_game =
     new_Economy new_GameState
       ((new_World 3)\<lparr>tiles :=
          [((0, - 5), land_tile 0 (- 5) 5), ((- 1, - 5), land_tile (- 1) (- 5) 5),
           ((1, - 5), land_tile 1 (- 5) 5), ((0, - 6), land_tile 0 (- 6) 4),
           ((0, - 4), land_tile 0 (- 4) 4)]\<rparr>) []"


section \<open>Properties\<close>

subsection \<open>The generator\<close>

lemma next_u32_bound: "fst (next_u32 g) < 4294967296"
proof -
  have "unat (w :: int32) < 2 ^ 32" for w
    using unsigned_less [of w, where ?'a = nat] by simp
  then show ?thesis by (simp add: next_u32_def Let_def)
qed

lemma next_range: "0 \<le> fst (next g) \<and> fst (next g) < 1"
  using next_u32_bound [of g] by (simp add: next_def split_beta)

lemma snd_next: "snd (next g) = g + 0x6d2b79f5"
  by (simp add: next_def next_u32_def split_beta Let_def)

lemma snd_nextInt: "snd (nextInt g mn mx) = snd (next g)"
  by (simp add: nextInt_def split_beta)

lemma nextInt_range:
  assumes "mn \<le> mx"
  shows "mn \<le> fst (nextInt g mn mx) \<and> fst (nextInt g mn mx) \<le> mx"
proof -
  define r where "r = fst (next g)"
  define k where "k = mx - mn + 1"
  have r: "0 \<le> r" "r < 1" using next_range [of g] by (simp_all add: r_def)
  have k: "0 < k" using assms by (simp add: k_def)
  have lo: "0 \<le> r * of_int k" using r k by simp
  have "r * of_int k < of_int k" using r k by simp
  then have hi: "\<lfloor>r * of_int k\<rfloor> < k" by (simp add: floor_less_iff)
  have "0 \<le> \<lfloor>r * of_int k\<rfloor>" using lo by simp
  moreover have "fst (nextInt g mn mx) = \<lfloor>r * of_int k\<rfloor> + mn"
    by (simp add: nextInt_def r_def k_def split_beta)
  ultimately show ?thesis using hi by (simp add: k_def)
qed

text \<open>In integers: \<open>floor (u / 2^32 * k)\<close> is \<open>u * k div 2^32\<close>.\<close>

lemma nextInt_eval:
  "nextInt g mn mx = ((int (fst (next_u32 g)) * (mx - mn + 1)) div 4294967296 + mn, snd (next_u32 g))"
proof -
  have "real (fst (next_u32 g)) / 4294967296 * real_of_int (mx - mn + 1)
        = real_of_int (int (fst (next_u32 g)) * (mx - mn + 1)) / real_of_int 4294967296"
    by simp
  then have "\<lfloor>real (fst (next_u32 g)) / 4294967296 * real_of_int (mx - mn + 1)\<rfloor>
        = (int (fst (next_u32 g)) * (mx - mn + 1)) div 4294967296"
    by (simp only: floor_divide_of_int_eq)
  then show ?thesis by (simp add: nextInt_def next_def split_beta)
qed

subsection \<open>Generation of a tile\<close>

lemma generateForest_resources: "resources (generateForest w t) = resources t"
  by (simp add: generateForest_def Let_def)

lemma generateForest_altitude: "altitude (generateForest w t) = altitude t"
  by (simp add: generateForest_def Let_def)

lemma generateResources_altitude: "altitude (generateResources w t) = altitude t"
  by (simp add: generateResources_def Let_def split_beta)

lemma resources_of_eq:
  "resources_of w px py a =
     \<lparr>stone = fst (nextInt (resource_rng w px py 0) 50 150),
      iron = (if \<bar>a\<bar> < 5 then fst (nextInt (resource_rng w px py 1) 20 80)
              else if \<bar>a\<bar> < 10 then fst (nextInt (resource_rng w px py 1) 5 30) else 0),
      uranium = (if \<bar>a\<bar> < 3 then fst (nextInt (resource_rng w px py 2) 1 10)
                 else if \<bar>a\<bar> < 8 then fst (nextInt (resource_rng w px py 2) 0 5) else 0)\<rparr>"
  by (simp add: resources_of_def generateResources_def resource_rng_def new_Tile_def Let_def
        split_beta snd_nextInt numeral_2_eq_2)

text \<open>
  C4. Every generated tile has the resources \<open>resources_of\<close> of its altitude \<open>a\<close>. Stone is
  the first draw of the tile's generator, \<open>nextInt(50, 150)\<close>. Iron is the second draw,
  \<open>nextInt(20, 80)\<close> if \<open>|a| < 5\<close> and \<open>nextInt(5, 30)\<close> if \<open>5 \<le> |a| < 10\<close>, and \<open>0\<close>
  otherwise. Uranium is the third draw (which exists: \<open>|a| < 8\<close> gives an iron draw),
  \<open>nextInt(1, 10)\<close> if \<open>|a| < 3\<close> and \<open>nextInt(0, 5)\<close> if \<open>3 \<le> |a| < 8\<close>, and \<open>0\<close> otherwise. Each
  quantity is one draw, of one band, within the bounds of the band.
\<close>

theorem C4_resource_bands:
  "stone (resources_of w px py a) = fst (nextInt (resource_rng w px py 0) 50 150)
   \<and> 50 \<le> stone (resources_of w px py a) \<and> stone (resources_of w px py a) \<le> 150
   \<and> (\<bar>a\<bar> < 5 \<longrightarrow>
        iron (resources_of w px py a) = fst (nextInt (resource_rng w px py 1) 20 80)
        \<and> 20 \<le> iron (resources_of w px py a) \<and> iron (resources_of w px py a) \<le> 80)
   \<and> (5 \<le> \<bar>a\<bar> \<and> \<bar>a\<bar> < 10 \<longrightarrow>
        iron (resources_of w px py a) = fst (nextInt (resource_rng w px py 1) 5 30)
        \<and> 5 \<le> iron (resources_of w px py a) \<and> iron (resources_of w px py a) \<le> 30)
   \<and> (10 \<le> \<bar>a\<bar> \<longrightarrow> iron (resources_of w px py a) = 0)
   \<and> (\<bar>a\<bar> < 3 \<longrightarrow>
        uranium (resources_of w px py a) = fst (nextInt (resource_rng w px py 2) 1 10)
        \<and> 1 \<le> uranium (resources_of w px py a) \<and> uranium (resources_of w px py a) \<le> 10)
   \<and> (3 \<le> \<bar>a\<bar> \<and> \<bar>a\<bar> < 8 \<longrightarrow>
        uranium (resources_of w px py a) = fst (nextInt (resource_rng w px py 2) 0 5)
        \<and> 0 \<le> uranium (resources_of w px py a) \<and> uranium (resources_of w px py a) \<le> 5)
   \<and> (8 \<le> \<bar>a\<bar> \<longrightarrow> uranium (resources_of w px py a) = 0)
   \<and> resources (fst (generateTile w px py))
       = resources_of w px py (altitude (fst (generateTile w px py)))"
proof -
  have gen: "resources (fst (generateTile w px py))
       = resources_of w px py (altitude (fst (generateTile w px py)))"
    by (simp add: generateTile_def Let_def generateForest_resources generateForest_altitude
          generateResources_altitude resources_of_def)
  show ?thesis
    unfolding resources_of_eq
    using gen nextInt_range [of 50 150] nextInt_range [of 20 80] nextInt_range [of 5 30]
      nextInt_range [of 1 10] nextInt_range [of 0 5]
    by (simp add: resources_of_eq)
qed

text \<open>The bands at the altitudes 4, 7 and 12, for the tile \<open>(2, 3)\<close> of the world of seed 1.\<close>

theorem C4_resource_bands_witness:
  "(\<bar>4 :: int\<bar> < 5 \<and> 20 \<le> iron (resources_of (new_World 1) 2 3 4)
      \<and> iron (resources_of (new_World 1) 2 3 4) \<le> 80)
   \<and> (5 \<le> \<bar>7 :: int\<bar> \<and> \<bar>7 :: int\<bar> < 10 \<and> 5 \<le> iron (resources_of (new_World 1) 2 3 7)
      \<and> iron (resources_of (new_World 1) 2 3 7) \<le> 30)
   \<and> (10 \<le> \<bar>12 :: int\<bar> \<and> iron (resources_of (new_World 1) 2 3 12) = 0)"
  using C4_resource_bands [of "new_World 1" 2 3 4] C4_resource_bands [of "new_World 1" 2 3 7]
    C4_resource_bands [of "new_World 1" 2 3 12]
  by simp

subsection \<open>Determinism of generation\<close>

lemma generateTile_cong:
  "seed w = seed w' \<Longrightarrow> perlin w = perlin w' \<Longrightarrow> fst (generateTile w px py) = fst (generateTile w' px py)"
  by (simp add: generateTile_def generateResources_def generateForest_def Let_def)

lemma generateTile_frame:
  "seed (snd (generateTile w px py)) = seed w" "perlin (snd (generateTile w px py)) = perlin w"
  by (simp_all add: generateTile_def Let_def)

lemma getTile_frame:
  "seed (snd (getTile w px py)) = seed w" "perlin (snd (getTile w px py)) = perlin w"
  by (simp_all add: getTile_def generateTile_frame split: option.splits)

lemma visit_frame: "seed (visit ks w) = seed w \<and> perlin (visit ks w) = perlin w"
  by (induction ks arbitrary: w) (simp_all add: visit_def getTile_frame)

lemma map_of_generateTile:
  "map_of (tiles (snd (generateTile w px py))) = (map_of (tiles w))((px, py) \<mapsto> fst (generateTile w px py))"
  by (simp add: generateTile_def Let_def update_conv')

lemma map_of_getTile:
  "map_of (tiles (snd (getTile w px py))) = (map_of (tiles w))((px, py) \<mapsto> fst (getTile w px py))"
  by (auto simp: getTile_def map_of_generateTile split: option.splits)

lemma pure_world_new: "pure_world s (new_World s)"
  by (simp add: pure_world_def new_World_def)

lemma pure_world_getTile_fst:
  assumes "pure_world s w"
  shows "fst (getTile w px py) = fst (generateTile (new_World s) px py)"
proof (cases "map_of (tiles w) (px, py)")
  case None
  then have "fst (getTile w px py) = fst (generateTile w px py)" by (simp add: getTile_def)
  also have "\<dots> = fst (generateTile (new_World s) px py)"
    using assms by (intro generateTile_cong) (simp_all add: pure_world_def new_World_def)
  finally show ?thesis .
next
  case (Some t)
  then show ?thesis using assms by (auto simp: getTile_def pure_world_def)
qed

lemma pure_world_getTile:
  assumes "pure_world s w"
  shows "pure_world s (snd (getTile w px py))"
  using assms pure_world_getTile_fst [OF assms, of px py]
  by (auto simp: pure_world_def getTile_frame map_of_getTile)

lemma pure_world_visit: "pure_world s w \<Longrightarrow> pure_world s (visit ks w)"
  by (induction ks arbitrary: w) (simp_all add: visit_def pure_world_getTile)

text \<open>
  C1. For every seed \<open>s\<close> and coordinates \<open>(px, py)\<close>: in two worlds made from \<open>s\<close>, after
  any tiles \<open>ks1\<close> and \<open>ks2\<close> were generated in any order, \<open>generateTile\<close> makes the same tile
  at \<open>(px, py)\<close> (the same altitude, resources, \<open>isForest\<close> and \<open>forestHealth\<close>); and the
  tile that \<open>getTile\<close> returns there, generated now or earlier, is the tile that a new world
  generates first.
\<close>

theorem C1_generation_deterministic:
  "fst (generateTile (visit ks1 (new_World s)) px py) = fst (generateTile (visit ks2 (new_World s)) px py)
   \<and> fst (getTile (visit ks1 (new_World s)) px py) = fst (generateTile (new_World s) px py)"
proof
  show "fst (generateTile (visit ks1 (new_World s)) px py) = fst (generateTile (visit ks2 (new_World s)) px py)"
    by (intro generateTile_cong) (simp_all add: visit_frame)
  show "fst (getTile (visit ks1 (new_World s)) px py) = fst (generateTile (new_World s) px py)"
    by (intro pure_world_getTile_fst pure_world_visit pure_world_new)
qed

theorem C1_generation_deterministic_witness:
  "fst (generateTile (visit [(1, 2), (0, 0)] (new_World 7)) 0 0) = fst (generateTile (visit [] (new_World 7)) 0 0)
   \<and> fst (getTile (visit [(1, 2), (0, 0)] (new_World 7)) 0 0) = fst (generateTile (new_World 7) 0 0)"
  using C1_generation_deterministic [of "[(1, 2), (0, 0)]" 7 0 0 "[]"] .


subsection \<open>The checks of a build\<close>

lemma getTile_cached: "map_of (tiles w) (c, d) = Some t \<Longrightarrow> fst (getTile w c d) = t"
  by (simp add: getTile_def)

lemma getTile_fresh: "map_of (tiles w) (c, d) = None \<Longrightarrow> fst (getTile w c d) = fst (generateTile w c d)"
  by (simp add: getTile_def)

lemma getTile_getTile:
  "fst (getTile (snd (getTile w a b)) c d) = fst (getTile w c d)"
proof -
  define w' where "w' = snd (getTile w a b)"
  have m: "map_of (tiles w') = (map_of (tiles w))((a, b) \<mapsto> fst (getTile w a b))"
    by (simp add: w'_def map_of_getTile)
  show ?thesis
  proof (cases "(a, b) = (c, d)")
    case True
    then have "map_of (tiles w') (c, d) = Some (fst (getTile w c d))" using m by auto
    then show ?thesis unfolding w'_def [symmetric] by (rule getTile_cached)
  next
    case False
    then have eq: "map_of (tiles w') (c, d) = map_of (tiles w) (c, d)" using m by auto
    show ?thesis
    proof (cases "map_of (tiles w) (c, d)")
      case (Some t)
      then show ?thesis unfolding w'_def [symmetric] using eq by (simp add: getTile_cached)
    next
      case None
      then have "fst (getTile w' c d) = fst (generateTile w' c d)" using eq by (simp add: getTile_fresh)
      also have "\<dots> = fst (generateTile w c d)"
        by (intro generateTile_cong) (simp_all add: w'_def getTile_frame)
      also have "\<dots> = fst (getTile w c d)" using None by (simp add: getTile_fresh)
      finally show ?thesis by (simp add: w'_def)
    qed
  qed
qed

lemma costs_some_limit: "getStructureCost ty = Some c \<Longrightarrow> \<exists>m. getMaxAltitudeDiff ty = Some m"
  by (auto simp: getStructureCost_def getMaxAltitudeDiff_def split: if_splits)

lemma costs_some_data: "getStructureCost ty = Some c \<Longrightarrow> \<exists>d. getDefaultStructureData ty = Some d"
  by (auto simp: getStructureCost_def getDefaultStructureData_def split: if_splits)

lemma canBuildStructure_fst:
  "fst (canBuildStructure w tile ty) =
     (if altitude tile < 0 then CannotBuild ''Cannot build on water''
      else if isForest tile then CannotBuild ''Cannot build on forest''
      else if list_ex (too_steep (getMaxAltitudeDiff ty) tile) (neighbors_of w tile)
           then CannotBuild (''Terrain too steep for '' @ ty) else CanBuild)"
  by (simp add: canBuildStructure_def neighbors_of_def split_beta getTile_getTile)

text \<open>
  C3. For a type with costs \<open>c\<close> and altitude limit \<open>m\<close>, \<open>buildStructure\<close> fails with the
  reason of the first check that fails in the order money, wood, food, water, forest,
  steepness, occupancy, and succeeds when none fails; with less money than the type costs,
  the result is the money reason and an unchanged state, whatever the terrain.
\<close>

theorem C3_build_check_order:
  assumes "getStructureCost ty = Some c" and "getMaxAltitudeDiff ty = Some m"
  shows "build_outcome e tile ty =
           (case first_failure (build_checks e tile ty c m) of
              Some reason \<Rightarrow> Some (Failure reason)
            | None \<Rightarrow> Some (Success (length (heap e))))
         \<and> (money (gameState e) < cost_money c \<longrightarrow>
              buildStructure e tile ty = Inr (Failure ''Not enough money'', e))"
proof -
  note m = assms(2)
  obtain d where d: "getDefaultStructureData ty = Some d" using costs_some_data [OF assms(1)] by blast
  have steep: "list_ex (too_steep (Some m) tile) ns = (\<not> list_all (\<lambda>n. \<bar>altitude n - altitude tile\<bar> \<le> m) ns)" for ns
    by (induction ns) (auto simp: too_steep_def)
  show ?thesis
    by (simp add: build_outcome_def buildStructure_def assms(1) m d less_cost_def Let_def split_beta
        first_failure_def build_checks_def canBuildStructure_fst steep not_le not_less)
qed

lemma noise_origin: "noise pn 0 0 = 0"
  by (simp add: noise_def Let_def fade_def lerp_def grad_def)

lemma altitude_origin: "altitude (fst (generateTile w 0 0)) = - 10"
  by (simp add: generateTile_def Let_def generateForest_altitude generateResources_altitude noise_origin Math_round_def)

text \<open>A house needs 100 money; with 50 the build fails for money on the tile \<open>(0, 0)\<close>, which
  is water in every world.\<close>

theorem C3_build_check_order_witness:
  "getStructureCost ''house'' = Some \<lparr>cost_money = 100, cost_wood = 50, cost_food = 0\<rparr>
   \<and> getMaxAltitudeDiff ''house'' = Some 1
   \<and> altitude (fst (generateTile (new_World 3) 0 0)) < 0
   \<and> buildStructure ((new_Game 3)\<lparr>gameState := new_GameState\<lparr>money := 50\<rparr>\<rparr>)
         (fst (generateTile (new_World 3) 0 0)) ''house''
       = Inr (Failure ''Not enough money'', (new_Game 3)\<lparr>gameState := new_GameState\<lparr>money := 50\<rparr>\<rparr>)"
  using C3_build_check_order [of "''house''" "\<lparr>cost_money = 100, cost_wood = 50, cost_food = 0\<rparr>" 1
      "(new_Game 3)\<lparr>gameState := new_GameState\<lparr>money := 50\<rparr>\<rparr>" "fst (generateTile (new_World 3) 0 0)"]
  by (simp add: getStructureCost_def getMaxAltitudeDiff_def altitude_origin)


subsection \<open>Food and population in a tick\<close>

lemma toJSON_addMessage [simp]: "GameState_toJSON (GameState_addMessage gs txt ty) = GameState_toJSON gs"
  by (simp add: GameState_toJSON_def GameState_addMessage_def Let_def)

lemma gameState_addMessage: "gameState (addMessage e txt ty) = GameState_addMessage (gameState e) txt ty"
  by (simp add: addMessage_def)

lemma gameState_destroyStructure [simp]: "gameState (destroyStructure e px py) = gameState e"
  by (simp add: destroyStructure_def split: option.splits prod.splits)

lemma tick_farms_numbers:
  "GameState_toJSON (gameState (fst (tick_farms l acc))) = GameState_toJSON (gameState (fst acc))"
  by (induction l acc rule: tick_farms.induct) (simp_all add: gameState_addMessage)

lemma tick_income_numbers:
  "food (gameState (tick_income e)) = food (gameState e)
   \<and> population (gameState (tick_income e)) = population (gameState e)"
  using tick_farms_numbers [of "structures e" "(e, 0, 0)"]
  by (simp add: tick_income_def split_beta GameState_toJSON_def)

lemma tick_lumber_numbers:
  "food (gameState (tick_lumber a e)) = food (gameState e)
   \<and> population (gameState (tick_lumber a e)) = population (gameState e)"
  by (simp add: tick_lumber_def Let_def split_beta)

lemma fold_tick_lumber_numbers:
  "food (gameState (fold tick_lumber as e)) = food (gameState e)
   \<and> population (gameState (fold tick_lumber as e)) = population (gameState e)"
  by (induction as arbitrary: e) (simp_all add: tick_lumber_numbers)

lemma tick_lumbers_numbers:
  "food (gameState (tick_lumbers e)) = food (gameState e)
   \<and> population (gameState (tick_lumbers e)) = population (gameState e)"
  by (simp add: tick_lumbers_def Let_def fold_tick_lumber_numbers)

lemma food_addMessage [simp]:
  "food (GameState_addMessage gs txt ty) = food gs" "population (GameState_addMessage gs txt ty) = population gs"
  by (simp_all add: GameState_addMessage_def Let_def)

lemma tickMine_numbers:
  "food (gameState (tickMine e a)) = food (gameState e)
   \<and> population (gameState (tickMine e a)) = population (gameState e)"
  by (simp add: tickMine_def Let_def split_beta gameState_addMessage split: StructureData.splits)

lemma fold_tickMine_numbers:
  "food (gameState (fold (\<lambda>a e1. if struct_type (heap e1 ! a) = ''mine'' then tickMine e1 a else e1) as e)) = food (gameState e)
   \<and> population (gameState (fold (\<lambda>a e1. if struct_type (heap e1 ! a) = ''mine'' then tickMine e1 a else e1) as e)) = population (gameState e)"
  by (induction as arbitrary: e) (simp_all add: tickMine_numbers)

lemma tick_mines_numbers:
  "food (gameState (tick_mines e)) = food (gameState e)
   \<and> population (gameState (tick_mines e)) = population (gameState e)"
  by (simp add: tick_mines_def fold_tickMine_numbers)

lemma tick_food_population:
  "food (gameState (tick e)) = food (gameState (tick_grow (tick_starve (tick_consume (tick_income e)))))
   \<and> population (gameState (tick e)) = population (gameState (tick_grow (tick_starve (tick_consume (tick_income e)))))"
  by (simp add: tick_def tick_mines_numbers tick_lumbers_numbers)

text \<open>
  C5. After any tick the food stock is not negative. When the stock after consumption,
  \<open>food - population * 0.5\<close>, is negative, the tick ends with food \<open>0\<close> and with the
  population reduced by \<open>min(leavers, population)\<close> for \<open>leavers = ceil(- food / 5)\<close>;
  otherwise it ends with the stock after consumption.
\<close>

theorem C5_starvation:
  "0 \<le> food (gameState (tick e))
   \<and> (food_after_consumption e < 0 \<longrightarrow>
        food (gameState (tick e)) = 0
        \<and> population (gameState (tick e))
            = population (gameState e)
              - min (of_int \<lceil>- food_after_consumption e / 5\<rceil>) (population (gameState e)))
   \<and> (food_after_consumption e \<ge> 0 \<longrightarrow> food (gameState (tick e)) = food_after_consumption e)"
  using tick_income_numbers [of e]
  by (simp add: tick_food_population food_after_consumption_def tick_grow_def tick_starve_def
        tick_consume_def Let_def gameState_addMessage)

text \<open>Population 20 and food 5: consumption leaves \<open>- 5\<close>, one person leaves.\<close>

theorem C5_starvation_witness:
  "food_after_consumption ((new_Game 1)\<lparr>gameState := new_GameState\<lparr>population := 20, food := 5\<rparr>\<rparr>) = - 5
   \<and> food (gameState (tick ((new_Game 1)\<lparr>gameState := new_GameState\<lparr>population := 20, food := 5\<rparr>\<rparr>))) = 0
   \<and> population (gameState (tick ((new_Game 1)\<lparr>gameState := new_GameState\<lparr>population := 20, food := 5\<rparr>\<rparr>))) = 19"
  using C5_starvation [of "(new_Game 1)\<lparr>gameState := new_GameState\<lparr>population := 20, food := 5\<rparr>\<rparr>"]
  by (simp add: food_after_consumption_def new_GameState_def)

subsection \<open>Worlds\<close>

lemma wf_world_iff:
  "wf_world w \<longleftrightarrow> distinct (map fst (tiles w)) \<and> (\<forall>k t. map_of (tiles w) k = Some t \<longrightarrow> tile_key t = k)"
proof -
  have "list_all (\<lambda>kt. tile_key (snd kt) = fst kt) al \<longleftrightarrow> (\<forall>k t. map_of al k = Some t \<longrightarrow> tile_key t = k)"
    if "distinct (map fst al)" for al :: "(key \<times> Tile) list"
    using that by (auto simp: list_all_iff dest: map_of_SomeD)
  then show ?thesis by (auto simp: wf_world_def)
qed

lemma wf_world_keyD: "wf_world w \<Longrightarrow> map_of (tiles w) k = Some t \<Longrightarrow> tile_key t = k"
  unfolding wf_world_iff by blast

lemma wf_world_distinct: "wf_world w \<Longrightarrow> distinct (map fst (tiles w))"
  by (simp add: wf_world_def)

lemma wf_worldI:
  "distinct (map fst (tiles w)) \<Longrightarrow> (\<And>k t. map_of (tiles w) k = Some t \<Longrightarrow> tile_key t = k) \<Longrightarrow> wf_world w"
  unfolding wf_world_iff by blast

lemma wf_world_new: "wf_world (new_World n)"
  by (simp add: wf_world_def new_World_def)

lemma key_generateForest: "tile_key (generateForest w t) = tile_key t"
  by (simp add: tile_key_def generateForest_def Let_def)

lemma key_generateResources: "tile_key (generateResources w t) = tile_key t"
  by (simp add: tile_key_def generateResources_def Let_def split_beta)

lemma key_generateTile: "tile_key (fst (generateTile w px py)) = (px, py)"
  by (simp add: generateTile_def Let_def key_generateForest key_generateResources)
     (simp add: tile_key_def new_Tile_def)

lemma wf_world_getTile_key: "wf_world w \<Longrightarrow> tile_key (fst (getTile w px py)) = (px, py)"
  by (cases "map_of (tiles w) (px, py)")
     (auto simp: getTile_def key_generateTile dest: wf_world_keyD)

lemma tiles_getTile:
  "tiles (snd (getTile w px py)) =
     (case map_of (tiles w) (px, py) of Some t \<Rightarrow> tiles w
      | None \<Rightarrow> AList.update (px, py) (fst (generateTile w px py)) (tiles w))"
  by (simp add: getTile_def generateTile_def Let_def split: option.splits)

lemma wf_world_getTile:
  assumes "wf_world w"
  shows "wf_world (snd (getTile w px py))"
proof -
  have d: "distinct (map fst (tiles (snd (getTile w px py))))"
    using wf_world_distinct [OF assms] by (simp add: tiles_getTile distinct_update split: option.splits)
  have "tile_key t = k" if "map_of (tiles (snd (getTile w px py))) k = Some t" for k t
    using that wf_world_keyD [OF assms, of k t] wf_world_getTile_key [OF assms, of px py]
    by (cases "k = (px, py)") (simp_all add: map_of_getTile)
  with d show ?thesis by (rule wf_worldI)
qed

lemma map_of_set_tile: "map_of (tiles (set_tile w t)) = (map_of (tiles w))(tile_key t \<mapsto> t)"
  by (simp add: set_tile_def update_conv' tile_key_def)

lemma wf_world_set_tile:
  assumes "wf_world w"
  shows "wf_world (set_tile w t)"
proof -
  have d: "distinct (map fst (tiles (set_tile w t)))"
    using wf_world_distinct [OF assms] by (simp add: set_tile_def distinct_update)
  have "tile_key t' = k" if "map_of (tiles (set_tile w t)) k = Some t'" for k t'
    using that wf_world_keyD [OF assms, of k t']
    by (cases "k = tile_key t") (simp_all add: map_of_set_tile)
  with d show ?thesis by (rule wf_worldI)
qed

lemma set_tile_frame: "seed (set_tile w t) = seed w" "perlin (set_tile w t) = perlin w"
  by (simp_all add: set_tile_def)

lemma getTile_depends:
  "map_of (tiles w') (px, py) = map_of (tiles w) (px, py) \<Longrightarrow> seed w' = seed w \<Longrightarrow> perlin w' = perlin w
   \<Longrightarrow> fst (getTile w' px py) = fst (getTile w px py)"
  using generateTile_cong [of w' w px py]
  by (cases "map_of (tiles w) (px, py)") (simp_all add: getTile_def)

lemma getTile_set_tile:
  "fst (getTile (set_tile w t) px py) = (if (px, py) = tile_key t then t else fst (getTile w px py))"
proof (cases "(px, py) = tile_key t")
  case True
  then have "map_of (tiles (set_tile w t)) (px, py) = Some t" by (simp add: map_of_set_tile)
  from getTile_cached [OF this] show ?thesis using True by simp
next
  case False
  then have "map_of (tiles (set_tile w t)) (px, py) = map_of (tiles w) (px, py)"
    by (simp add: map_of_set_tile)
  from getTile_depends [OF this] show ?thesis using False by (simp add: set_tile_frame)
qed

lemma evolves_sound_aux:
  "evolves T w w' \<Longrightarrow> wf_world w \<Longrightarrow> reflp T \<Longrightarrow> transp T \<Longrightarrow>
     wf_world w' \<and> seed w' = seed w \<and> perlin w' = perlin w
     \<and> (\<forall>px py. T (fst (getTile w px py)) (fst (getTile w' px py)))
     \<and> (\<forall>k. map_of (tiles w) k \<noteq> None \<longrightarrow> map_of (tiles w') k \<noteq> None)"
proof (induction rule: evolves.induct)
  case (ev_refl w)
  then show ?case by (simp add: reflpD)
next
  case (ev_get w w1 px py)
  then show ?case
    by (simp add: wf_world_getTile getTile_frame getTile_getTile map_of_getTile)
next
  case (ev_set w w1 t t0)
  note IH = ev_set.IH [OF ev_set.prems]
  have t0: "fst (getTile w1 (fst (tile_key t)) (snd (tile_key t))) = t0"
    using getTile_cached [of w1 "fst (tile_key t)" "snd (tile_key t)" t0] ev_set.hyps(2) by simp
  have "T (fst (getTile w px py)) (fst (getTile (set_tile w1 t) px py))" for px py
  proof (cases "(px, py) = tile_key t")
    case True
    have "T (fst (getTile w px py)) t0" using IH t0 True [symmetric] by auto
    then have "T (fst (getTile w px py)) t" using ev_set.hyps(3) ev_set.prems(3) by (blast dest: transpD)
    then show ?thesis using True by (simp add: getTile_set_tile)
  next
    case False
    then show ?thesis using IH by (simp add: getTile_set_tile)
  qed
  then show ?case using IH
    by (simp add: wf_world_set_tile set_tile_frame map_of_set_tile)
qed

lemma evolves_sound:
  assumes "evolves T w w'" and "wf_world w" and "reflp T" and "transp T"
  shows "wf_world w'" and "seed w' = seed w" and "perlin w' = perlin w"
    and "T (fst (getTile w px py)) (fst (getTile w' px py))"
    and "map_of (tiles w) k \<noteq> None \<Longrightarrow> map_of (tiles w') k \<noteq> None"
  using evolves_sound_aux [OF assms] by blast+

lemma evolves_trans: "evolves T w1 w2 \<Longrightarrow> evolves T w w1 \<Longrightarrow> evolves T w w2"
  by (induction rule: evolves.induct) (auto intro: evolves.intros)

lemma evolves_mono: "evolves T w w' \<Longrightarrow> (\<And>a b. T a b \<Longrightarrow> T' a b) \<Longrightarrow> evolves T' w w'"
  by (induction rule: evolves.induct) (auto intro: evolves.intros)

lemma evolves_getTile: "evolves T w (snd (getTile w px py))"
  by (intro evolves.intros)

lemma evolves_visit: "evolves T w (visit ks w)"
proof (induction ks arbitrary: w)
  case Nil
  show ?case by (simp add: visit_def ev_refl)
next
  case (Cons k ks)
  have "evolves T (snd (getTile w (fst k) (snd k))) (visit ks (snd (getTile w (fst k) (snd k))))"
    by (rule Cons.IH)
  then have "evolves T w (visit ks (snd (getTile w (fst k) (snd k))))"
    by (rule evolves_trans) (rule evolves_getTile)
  then show ?case by (simp add: visit_def)
qed

lemma getTile_visit: "fst (getTile (visit ks w) px py) = fst (getTile w px py)"
  by (induction ks arbitrary: w) (simp_all add: visit_def getTile_getTile)

lemma map_of_visit_keep: "map_of (tiles w) k = Some t \<Longrightarrow> map_of (tiles (visit ks w)) k = Some t"
proof (induction ks arbitrary: w)
  case Nil
  then show ?case by (simp add: visit_def)
next
  case (Cons a ks)
  have "map_of (tiles (snd (getTile w (fst a) (snd a)))) k = Some t"
    using Cons.prems getTile_cached [of w "fst a" "snd a" t]
    by (cases "k = a") (auto simp: map_of_getTile)
  from Cons.IH [OF this] show ?case by (simp add: visit_def)
qed

subsection \<open>Regions\<close>

lemma visit_Cons: "visit (k # ks) w = visit ks (snd (getTile w (fst k) (snd k)))"
  by (simp add: visit_def)

lemma visit_append: "visit (ks @ ks') w = visit ks' (visit ks w)"
  by (simp add: visit_def)

lemma tiles_at_visit: "tiles_at (visit ks w) ks' = tiles_at w ks'"
  by (simp add: tiles_at_def getTile_visit)

lemma getTiles_row_eq:
  "getTiles_row cx py dxs (ts, w) =
     (ts @ tiles_at w (map (\<lambda>dx. (cx + dx, py)) dxs), visit (map (\<lambda>dx. (cx + dx, py)) dxs) w)"
proof (induction dxs arbitrary: ts w)
  case Nil
  show ?case by (simp add: tiles_at_def visit_def)
next
  case (Cons dx dxs)
  obtain tile w1 where g: "getTile w (cx + dx) py = (tile, w1)" by (cases "getTile w (cx + dx) py")
  have w1: "w1 = visit [(cx + dx, py)] w" using g by (simp add: visit_def)
  have "tiles_at w1 ks = tiles_at w ks" for ks unfolding w1 by (rule tiles_at_visit)
  then show ?case using g Cons.IH [of "ts @ [tile]" w1]
    by (simp add: visit_Cons) (simp add: tiles_at_def)
qed

lemma getTiles_rows_eq:
  "getTiles_rows cx cy h dys (ts, w) =
     (ts @ tiles_at w (concat (map (\<lambda>dy. map (\<lambda>dx. (cx + dx, cy + dy)) [- h .. h]) dys)),
      visit (concat (map (\<lambda>dy. map (\<lambda>dx. (cx + dx, cy + dy)) [- h .. h]) dys)) w)"
proof (induction dys arbitrary: ts w)
  case Nil
  show ?case by (simp add: tiles_at_def visit_def)
next
  case (Cons dy dys)
  show ?case
    by (simp add: getTiles_row_eq Cons.IH visit_append tiles_at_visit) (simp add: tiles_at_def)
qed

lemma getTiles_eq:
  "getTiles w cx cy gridSize =
     (tiles_at w (region_coords cx cy (gridSize div 2)), visit (region_coords cx cy (gridSize div 2)) w)"
  by (simp add: getTiles_def Let_def getTiles_rows_eq region_coords_def)

lemma length_region_coords: "0 \<le> h \<Longrightarrow> length (region_coords cx cy h) = nat ((2 * h + 1) * (2 * h + 1))"
  by (simp add: region_coords_def length_concat comp_def sum_list_triv nat_mult_distrib)

lemma map_of_visit:
  "map_of (tiles (visit ks w)) k =
     (if k \<in> set ks then Some (fst (getTile w (fst k) (snd k))) else map_of (tiles w) k)"
proof (induction ks arbitrary: w)
  case Nil
  show ?case by (simp add: visit_def)
next
  case (Cons a ks)
  show ?case
    by (simp add: visit_Cons Cons.IH getTile_getTile map_of_getTile)
qed

lemma tile_key_tiles_at: "wf_world w \<Longrightarrow> map tile_key (tiles_at w ks) = ks"
  by (induction ks) (simp_all add: tiles_at_def wf_world_getTile_key)

text \<open>
  C8, amended. In a world whose tiles are stored under their coordinates, \<open>getTiles\<close> returns
  the tiles of the square of half-width \<open>gridSize div 2\<close> (the floor of \<open>gridSize / 2\<close>) around
  the center, row by row from the top-left corner; each is the tile that \<open>getTile\<close> returns
  there, and afterwards the store holds exactly these tiles besides those it held. For a
  positive size these are \<open>(2 * (gridSize div 2) + 1)\<^sup>2\<close> tiles: \<open>gridSize * gridSize\<close> when the
  size is odd.
\<close>

theorem C8_region:
  assumes "wf_world w"
  shows "map tile_key (fst (getTiles w cx cy gridSize)) = region_coords cx cy (gridSize div 2)
    \<and> fst (getTiles w cx cy gridSize) = tiles_at w (region_coords cx cy (gridSize div 2))
    \<and> snd (getTiles w cx cy gridSize) = visit (region_coords cx cy (gridSize div 2)) w
    \<and> (\<forall>k. map_of (tiles (snd (getTiles w cx cy gridSize))) k =
          (if k \<in> set (region_coords cx cy (gridSize div 2))
           then Some (fst (getTile w (fst k) (snd k))) else map_of (tiles w) k))
    \<and> (0 < gridSize \<longrightarrow> length (fst (getTiles w cx cy gridSize))
          = nat ((2 * (gridSize div 2) + 1) * (2 * (gridSize div 2) + 1)))
    \<and> (0 < gridSize \<and> odd gridSize \<longrightarrow> length (fst (getTiles w cx cy gridSize)) = nat (gridSize * gridSize))"
proof -
  have len: "length (tiles_at w ks) = length ks" for ks by (simp add: tiles_at_def)
  have odd: "2 * (gridSize div 2) + 1 = gridSize" if "odd gridSize" using that by presburger
  show ?thesis
    using assms by (auto simp: getTiles_eq tile_key_tiles_at map_of_visit len length_region_coords odd)
qed

lemma upto_eval: "[i .. j] = (if i \<le> j then i # [i + 1 .. j] else [])"
  by (simp add: upto.simps)

text \<open>Size 3 around the origin of a new world: nine tiles.\<close>

theorem C8_region_witness:
  "wf_world (new_World 3)
   \<and> map tile_key (fst (getTiles (new_World 3) 0 0 3))
       = [(- 1, - 1), (0, - 1), (1, - 1), (- 1, 0), (0, 0), (1, 0), (- 1, 1), (0, 1), (1, 1)]
   \<and> length (fst (getTiles (new_World 3) 0 0 3)) = 9"
proof -
  note region = C8_region [OF wf_world_new, of 3 0 0 3]
  have coords: "region_coords 0 0 1
      = [(- 1, - 1), (0, - 1), (1, - 1), (- 1, 0), (0, 0), (1, 0), (- 1, 1), (0, 1), (1, 1)]"
    by (simp add: region_coords_def upto_eval [of "- 1"] upto_eval [of 0] upto_eval [of 1] upto_eval [of 2])
  have "map tile_key (fst (getTiles (new_World 3) 0 0 3)) = region_coords 0 0 (3 div 2)"
    using region by (rule conjunct1)
  moreover have "length (fst (getTiles (new_World 3) 0 0 3)) = 9"
    using region [THEN conjunct2, THEN conjunct2, THEN conjunct2, THEN conjunct2, THEN conjunct1]
    by simp
  ultimately show ?thesis by (simp add: coords wf_world_new)
qed

text \<open>C8 as stated fails for an even size: size 2 gives nine tiles, not four.\<close>

theorem C8_even_size_counterexample:
  "length (fst (getTiles (new_World 3) 0 0 2)) \<noteq> 2 * 2"
  by (simp add: getTiles_eq tiles_at_def length_region_coords)

subsection \<open>How the operations change the world\<close>

lemma T_tick_preorder: "reflp T_tick" "transp T_tick"
  by (auto simp: reflp_def transp_def T_tick_def)



lemma T_lumber_preorder: "reflp T_lumber" "transp T_lumber"
proof -
  show "reflp T_lumber" by (simp add: reflp_def T_lumber_def)
  have "T_lumber t t''" if "T_lumber t t'" "T_lumber t' t''" for t t' t''
  proof (cases "t' = t \<or> t'' = t'")
    case True
    then show ?thesis using that by auto
  next
    case False
    then show ?thesis using that by (simp add: T_lumber_def)
  qed
  then show "transp T_lumber" by (auto simp: transp_def)
qed

lemma T_lumber_tick: "T_lumber t t' \<Longrightarrow> T_tick t t'"
  by (auto simp: T_lumber_def T_tick_def forest_ok_def)


lemma getTile_stored:
  "wf_world w \<Longrightarrow> map_of (tiles (snd (getTile w px py))) (px, py) = Some (fst (getTile w px py))"
  by (simp add: map_of_getTile)

text \<open>A write to a tile just requested, keeping its coordinates.\<close>

lemma evolves_write:
  assumes "wf_world w" and "T (fst (getTile w px py)) t" and "tile_key t = tile_key (fst (getTile w px py))"
  shows "evolves T w (set_tile (snd (getTile w px py)) t)"
proof -
  have "tile_key t = (px, py)" using assms(1,3) by (simp add: wf_world_getTile_key)
  then have "map_of (tiles (snd (getTile w px py))) (tile_key t) = Some (fst (getTile w px py))"
    by (simp add: map_of_getTile)
  then show ?thesis using assms(2) by (intro ev_set [OF evolves_getTile])
qed

lemma snd_fold_count_forest: "snd (fold count_forest ks (n, w)) = visit ks w"
  by (induction ks arbitrary: n w) (simp_all add: visit_Cons count_forest_def split_beta visit_def)

lemma snd_fold_sum_resources: "snd (fold sum_resources ks (r, w)) = visit ks w"
  by (induction ks arbitrary: r w) (simp_all add: visit_Cons sum_resources_def split_beta visit_def)

lemma evolves_damage_column:
  "wf_world w \<Longrightarrow> evolves T_lumber w (damage_column px cy dys w)"
proof (induction dys arbitrary: w)
  case Nil
  show ?case by (simp add: ev_refl)
next
  case (Cons dy dys)
  define tile where "tile = fst (getTile w px (cy + dy))"
  define w1 where "w1 = snd (getTile w px (cy + dy))"
  define tile1 where "tile1 = tile\<lparr>forestHealth := forestHealth tile - 0.1\<rparr>"
  have g: "getTile w px (cy + dy) = (tile, w1)" by (simp add: tile_def w1_def)
  have wf1: "wf_world w1" unfolding w1_def using Cons.prems by (rule wf_world_getTile)
  have unfold: "damage_column px cy (dy # dys) w =
      (if isForest tile \<and> forestHealth tile > 0 then
         (if forestHealth tile1 \<le> 0 then set_tile w1 (tile1\<lparr>isForest := False\<rparr>)
          else damage_column px cy dys (set_tile w1 tile1))
       else damage_column px cy dys w1)"
    by (simp add: g tile1_def Let_def)
  consider (skip) "\<not> (isForest tile \<and> forestHealth tile > 0)"
    | (dead) "isForest tile \<and> forestHealth tile > 0" "forestHealth tile1 \<le> 0"
    | (alive) "isForest tile \<and> forestHealth tile > 0" "\<not> forestHealth tile1 \<le> 0"
    by blast
  then show ?case
  proof cases
    case skip
    have "evolves T_lumber w1 (damage_column px cy dys w1)" using wf1 by (rule Cons.IH)
    then have "evolves T_lumber w (damage_column px cy dys w1)"
      by (rule evolves_trans) (simp add: w1_def evolves_getTile)
    then show ?thesis unfolding unfold by (simp only: skip if_False)
  next
    case dead
    have "evolves T_lumber w (set_tile w1 (tile1\<lparr>isForest := False\<rparr>))"
      unfolding w1_def using Cons.prems
      by (rule evolves_write) (use dead in \<open>simp_all add: tile_def [symmetric] tile1_def T_lumber_def tile_key_def\<close>)
    then show ?thesis unfolding unfold by (simp only: dead simp_thms if_True)
  next
    case alive
    have step: "evolves T_lumber w (set_tile w1 tile1)"
      unfolding w1_def using Cons.prems
      by (rule evolves_write) (use alive in \<open>simp_all add: tile_def [symmetric] tile1_def T_lumber_def tile_key_def\<close>)
    have "wf_world (set_tile w1 tile1)" using wf1 by (rule wf_world_set_tile)
    then have "evolves T_lumber (set_tile w1 tile1) (damage_column px cy dys (set_tile w1 tile1))"
      by (rule Cons.IH)
    then have "evolves T_lumber w (damage_column px cy dys (set_tile w1 tile1))"
      using step by (rule evolves_trans)
    then show ?thesis unfolding unfold by (simp only: alive simp_thms if_True if_False)
  qed
qed

lemma evolves_fold:
  assumes "\<And>x w. wf_world w \<Longrightarrow> evolves T w (f x w)" and "reflp T" and "transp T"
  shows "wf_world w \<Longrightarrow> evolves T w (fold f xs w)"
proof (induction xs arbitrary: w)
  case Nil
  show ?case by (simp add: ev_refl)
next
  case (Cons x xs)
  have 1: "evolves T w (f x w)" using Cons.prems by (rule assms(1))
  have "wf_world (f x w)" using evolves_sound(1) [OF 1 Cons.prems assms(2,3)] .
  then have "evolves T (f x w) (fold f xs (f x w))" by (rule Cons.IH)
  then show ?case using 1 by (simp add: evolves_trans)
qed

lemma evolves_damage_forests: "wf_world w \<Longrightarrow> evolves T_lumber w (damage_forests cx cy w)"
  unfolding damage_forests_def
  by (rule evolves_fold [OF evolves_damage_column T_lumber_preorder])

lemma evolves_tick_lumber:
  assumes "wf_world (world e)"
  shows "evolves T_lumber (world e) (world (tick_lumber a e))"
proof -
  define ks where "ks = scan_coords (struct_x (heap e ! a)) (struct_y (heap e ! a)) 8"
  have v: "evolves T_lumber (world e) (visit ks (world e))" by (rule evolves_visit)
  have wfv: "wf_world (visit ks (world e))"
    using evolves_sound(1) [OF v assms T_lumber_preorder] .
  have "evolves T_lumber (world e) (damage_forests cx cy (visit ks (world e)))" for cx cy
    using evolves_damage_forests [OF wfv] v by (rule evolves_trans)
  then show ?thesis using v
    by (simp add: tick_lumber_def Let_def split_beta snd_fold_count_forest [of _ 0, simplified] ks_def)
qed

lemma evolves_fold_economy:
  assumes "\<And>a e. wf_world (world e) \<Longrightarrow> evolves T (world e) (world (f a e))" and "reflp T" and "transp T"
  shows "wf_world (world e) \<Longrightarrow> evolves T (world e) (world (fold f as e))"
proof (induction as arbitrary: e)
  case Nil
  show ?case by (simp add: ev_refl)
next
  case (Cons a as)
  have 1: "evolves T (world e) (world (f a e))" using Cons.prems by (rule assms(1))
  have "wf_world (world (f a e))" using evolves_sound(1) [OF 1 Cons.prems assms(2,3)] .
  then have "evolves T (world (f a e)) (world (fold f as (f a e)))" by (rule Cons.IH)
  then show ?case using 1 by (simp add: evolves_trans)
qed

lemma evolves_tick_lumbers:
  "wf_world (world e) \<Longrightarrow> evolves T_lumber (world e) (world (tick_lumbers e))"
  unfolding tick_lumbers_def Let_def
  by (rule evolves_fold_economy [OF evolves_tick_lumber T_lumber_preorder])

lemma evolves_tick_lumbers_tick:
  "wf_world (world e) \<Longrightarrow> evolves T_tick (world e) (world (tick_lumbers e))"
  using evolves_mono [OF evolves_tick_lumbers T_lumber_tick] .

lemma world_tickMine:
  "world (tickMine e a) = visit (scan_coords (struct_x (heap e ! a)) (struct_y (heap e ! a)) 4) (world e)"
proof -
  have "world (tickMine e a) = snd (fold sum_resources (scan_coords (struct_x (heap e ! a)) (struct_y (heap e ! a)) 4)
          (\<lparr>stone = 0, iron = 0, uranium = 0\<rparr>, world e))"
    by (simp add: tickMine_def Let_def split_beta addMessage_def split: StructureData.splits)
  then show ?thesis by (simp add: snd_fold_sum_resources)
qed

lemma evolves_tickMine: "evolves T (world e) (world (tickMine e a))"
  by (simp add: world_tickMine evolves_visit)

lemma evolves_tick_mines:
  assumes "reflp T" and "transp T"
  shows "wf_world (world e) \<Longrightarrow> evolves T (world e) (world (tick_mines e))"
  unfolding tick_mines_def
  by (rule evolves_fold_economy [OF _ assms]) (simp add: evolves_tickMine ev_refl)

lemma evolves_destroyStructure:
  assumes "wf_world (world e)"
  shows "evolves T_tick (world e) (world (destroyStructure e px py))"
proof (cases "map_of (structures e) (px, py)")
  case None
  then show ?thesis by (simp add: destroyStructure_def ev_refl)
next
  case (Some a)
  have "evolves T_tick (world e) (set_tile (snd (getTile (world e) px py)) ((fst (getTile (world e) px py))\<lparr>structure := None\<rparr>))"
    using assms by (rule evolves_write) (simp_all add: T_tick_def forest_ok_def tile_key_def)
  then show ?thesis using Some by (simp add: destroyStructure_def split_beta)
qed

lemma world_addMessage [simp]: "world (addMessage e txt ty) = world e"
  by (simp add: addMessage_def)


lemma world_stages [simp]:
  "world (tick_consume e) = world e" "world (tick_starve e) = world e" "world (tick_grow e) = world e"
  by (simp_all add: tick_consume_def tick_starve_def tick_grow_def Let_def)



subsection \<open>The store of structures\<close>

lemma same_shape_refl [simp]: "same_shape d d"
  by (cases d) (simp_all add: same_shape_def)

lemma same_shape_trans: "same_shape d d' \<Longrightarrow> same_shape d' d'' \<Longrightarrow> same_shape d d''"
  by (cases d; cases d'; cases d'') (simp_all add: same_shape_def)

lemma heap_step_refl [simp]: "heap_step h h"
  by (simp add: heap_step_def)

lemma heap_step_trans:
  assumes "heap_step h h'" and "heap_step h' h''"
  shows "heap_step h h''"
proof -
  have len: "length h \<le> length h'" "length h' \<le> length h''"
    using assms by (simp_all add: heap_step_def)
  have "struct_type (h'' ! a) = struct_type (h ! a) \<and> struct_x (h'' ! a) = struct_x (h ! a)
         \<and> struct_y (h'' ! a) = struct_y (h ! a) \<and> level (h'' ! a) = level (h ! a)
         \<and> same_shape (data (h'' ! a)) (data (h ! a))" if "a < length h" for a
  proof -
    have a': "a < length h'" using that len by simp
    from assms(1) that have 1: "struct_type (h' ! a) = struct_type (h ! a)" "struct_x (h' ! a) = struct_x (h ! a)"
      "struct_y (h' ! a) = struct_y (h ! a)" "level (h' ! a) = level (h ! a)"
      "same_shape (data (h' ! a)) (data (h ! a))"
      by (simp_all add: heap_step_def)
    from assms(2) a' have 2: "struct_type (h'' ! a) = struct_type (h' ! a)" "struct_x (h'' ! a) = struct_x (h' ! a)"
      "struct_y (h'' ! a) = struct_y (h' ! a)" "level (h'' ! a) = level (h' ! a)"
      "same_shape (data (h'' ! a)) (data (h' ! a))"
      by (simp_all add: heap_step_def)
    show ?thesis using 1 2 same_shape_trans [OF 2(5) 1(5)] by simp
  qed
  then show ?thesis using len by (simp add: heap_step_def)
qed

lemma heap_step_update:
  assumes "a < length h \<Longrightarrow> same_shape d (data (h ! a))"
  shows "heap_step h (h[a := (h ! a)\<lparr>data := d\<rparr>])"
proof (cases "a < length h")
  case True
  then show ?thesis using assms by (simp add: heap_step_def nth_list_update)
next
  case False
  then show ?thesis by (simp add: list_update_beyond)
qed




subsection \<open>The stages of a tick: structures and store\<close>

lemma tick_lumber_frame: "structures (tick_lumber a e) = structures e" "heap (tick_lumber a e) = heap e"
  by (simp_all add: tick_lumber_def Let_def split_beta)

lemma fold_tick_lumber_frame:
  "structures (fold tick_lumber as e) = structures e \<and> heap (fold tick_lumber as e) = heap e"
  by (induction as arbitrary: e) (simp_all add: tick_lumber_frame)

lemma tick_lumbers_frame: "structures (tick_lumbers e) = structures e" "heap (tick_lumbers e) = heap e"
  by (simp_all add: tick_lumbers_def Let_def fold_tick_lumber_frame)

lemma structures_addMessage [simp]: "structures (addMessage e txt ty) = structures e"
  "heap (addMessage e txt ty) = heap e"
  by (simp_all add: addMessage_def)

lemma structures_tickMine: "structures (tickMine e a) = structures e"
  by (simp add: tickMine_def Let_def split_beta split: StructureData.splits)

lemma heap_tickMine_other: "b \<noteq> a \<Longrightarrow> heap (tickMine e a) ! b = heap e ! b"
  by (simp add: tickMine_def Let_def split_beta split: StructureData.splits)

lemma length_heap_tickMine: "length (heap (tickMine e a)) = length (heap e)"
  by (simp add: tickMine_def Let_def split_beta split: StructureData.splits)

lemma heap_tickMine:
  "\<exists>d. heap (tickMine e a) = (heap e)[a := (heap e ! a)\<lparr>data := d\<rparr>] \<and> same_shape d (data (heap e ! a))"
proof (cases "\<exists>rl extracted. data (heap e ! a) = MineData rl extracted")
  case False
  then have "heap (tickMine e a) = heap e"
    by (cases "data (heap e ! a)") (simp_all add: tickMine_def Let_def split_beta)
  then show ?thesis using exI [of _ "data (heap e ! a)"] by simp
next
  case True
  then obtain rl extracted where MineData: "data (heap e ! a) = MineData rl extracted" by blast
  obtain ra w1 where sc: "fold sum_resources (scan_coords (struct_x (heap e ! a)) (struct_y (heap e ! a)) 4)
             (\<lparr>stone = 0, iron = 0, uranium = 0\<rparr>, world e) = (ra, w1)"
    by (cases "fold sum_resources (scan_coords (struct_x (heap e ! a)) (struct_y (heap e ! a)) 4)
             (\<lparr>stone = 0, iron = 0, uranium = 0\<rparr>, world e)")
  have keep: "\<exists>d. heap e = (heap e)[a := (heap e ! a)\<lparr>data := d\<rparr>] \<and> same_shape d (data (heap e ! a))"
    by (rule exI [of _ "data (heap e ! a)"]) simp
  have sh: "same_shape (MineData l x) (data (heap e ! a))" for l x
    by (simp add: MineData same_shape_def)
  have "heap (tickMine e a) = heap e
      \<or> (\<exists>l x. heap (tickMine e a) = (heap e)[a := (heap e ! a)\<lparr>data := MineData l x\<rparr>])"
    by (simp add: tickMine_def sc MineData Let_def) blast
  then show ?thesis using keep sh by metis
qed

lemma heap_step_tickMine: "heap_step (heap e) (heap (tickMine e a))"
proof -
  obtain d where d: "heap (tickMine e a) = (heap e)[a := (heap e ! a)\<lparr>data := d\<rparr>]"
    "same_shape d (data (heap e ! a))"
    using heap_tickMine by blast
  show ?thesis unfolding d(1) by (rule heap_step_update) (rule d(2))
qed

lemma type_heap_tickMine: "struct_type (heap (tickMine e a) ! b) = struct_type (heap e ! b)"
proof -
  obtain d where d: "heap (tickMine e a) = (heap e)[a := (heap e ! a)\<lparr>data := d\<rparr>]"
    using heap_tickMine by blast
  show ?thesis unfolding d
    by (cases "a < length (heap e)") (simp_all add: nth_list_update list_update_beyond)
qed

lemma tick_mines_frame:
  "structures (fold (\<lambda>a e1. if struct_type (heap e1 ! a) = ''mine'' then tickMine e1 a else e1) as e) = structures e
   \<and> heap_step (heap e) (heap (fold (\<lambda>a e1. if struct_type (heap e1 ! a) = ''mine'' then tickMine e1 a else e1) as e))
   \<and> length (heap (fold (\<lambda>a e1. if struct_type (heap e1 ! a) = ''mine'' then tickMine e1 a else e1) as e)) = length (heap e)"
proof (induction as arbitrary: e)
  case Nil
  show ?case by simp
next
  case (Cons a as)
  show ?case
    using Cons.IH [of "tickMine e a"] Cons.IH [of e] heap_step_tickMine [of e a]
    by (auto simp: structures_tickMine length_heap_tickMine intro: heap_step_trans)
qed

lemma tick_mines_structures: "structures (tick_mines e) = structures e"
  by (simp add: tick_mines_def tick_mines_frame)

lemma tick_mines_heap_step: "heap_step (heap e) (heap (tick_mines e))"
  by (simp add: tick_mines_def tick_mines_frame)

lemma stages_frame [simp]:
  "structures (tick_consume e) = structures e" "heap (tick_consume e) = heap e"
  "structures (tick_starve e) = structures e" "heap (tick_starve e) = heap e"
  "structures (tick_grow e) = structures e" "heap (tick_grow e) = heap e"
  by (simp_all add: tick_consume_def tick_starve_def tick_grow_def Let_def)

lemma structures_destroyStructure:
  "structures (destroyStructure e px py) = AList.delete (px, py) (structures e)"
  "heap (destroyStructure e px py) = heap e"
proof -
  have "AList.delete (px, py) (structures e) = structures e" if "map_of (structures e) (px, py) = None"
    using that by (intro delete_id) (simp add: map_of_eq_None_iff)
  then show "structures (destroyStructure e px py) = AList.delete (px, py) (structures e)"
    by (simp add: destroyStructure_def split_beta split: option.splits)
  show "heap (destroyStructure e px py) = heap e"
    by (simp add: destroyStructure_def split_beta split: option.splits)
qed

lemma set_delete_subset: "set (AList.delete k al) \<subseteq> set al"
  by (auto simp: AList.delete_eq)

lemma same_shape_set_foodPerTick [simp]: "same_shape (set_foodPerTick v d) d"
  by (cases d) (simp_all add: set_foodPerTick_def same_shape_def)

lemma tick_farms_frame:
  "set (structures (fst (tick_farms l acc))) \<subseteq> set (structures (fst acc))
   \<and> (distinct (map fst (structures (fst acc))) \<longrightarrow> distinct (map fst (structures (fst (tick_farms l acc)))))
   \<and> heap_step (heap (fst acc)) (heap (fst (tick_farms l acc)))"
proof (induction l acc rule: tick_farms.induct)
  case (1 acc)
  show ?case by simp
next
  case (2 k a rest e farmIncome farmCount)
  consider (other) "struct_type (heap e ! a) \<noteq> ''farm''"
    | (bankrupt) "struct_type (heap e ! a) = ''farm''" "10 - 10 * incomeTaxRate (gameState e) \<le> 0"
    | (solvent) "struct_type (heap e ! a) = ''farm''" "\<not> 10 - 10 * incomeTaxRate (gameState e) \<le> 0"
    by blast
  then show ?case
  proof cases
    case other
    then show ?thesis using "2.IH"(3) by simp
  next
    case bankrupt
    show ?thesis
      using "2.IH"(1) [OF bankrupt] bankrupt set_delete_subset [of "(struct_x (heap e ! a), struct_y (heap e ! a))" "structures e"]
      by (auto simp: structures_destroyStructure distinct_delete)
  next
    case solvent
    have "heap_step (heap e) ((heap e)[a := (heap e ! a)\<lparr>data :=
                   set_foodPerTick (1 + 0.5 * (level (heap e ! a) - 1)) (data (heap e ! a))\<rparr>])"
      by (rule heap_step_update) simp
    then show ?thesis
      using "2.IH"(2) [OF solvent] solvent by (auto intro: heap_step_trans)
  qed
qed

lemma tick_income_frame:
  "set (structures (tick_income e)) \<subseteq> set (structures e)
   \<and> (distinct (map fst (structures e)) \<longrightarrow> distinct (map fst (structures (tick_income e))))
   \<and> heap_step (heap e) (heap (tick_income e))"
  using tick_farms_frame [of "structures e" "(e, 0, 0)"]
  by (simp add: tick_income_def split_beta)


subsection \<open>A mine's tick\<close>

lemma gameState_tickMine:
  "money (gameState (tickMine e a)) = money (gameState e)
   \<and> food (gameState (tickMine e a)) = food (gameState e)
   \<and> population (gameState (tickMine e a)) = population (gameState e)
   \<and> employed (gameState (tickMine e a)) = employed (gameState e)
   \<and> incomeTaxRate (gameState (tickMine e a)) = incomeTaxRate (gameState e)
   \<and> time (gameState (tickMine e a)) = time (gameState e)"
proof -
  have "gameState (tickMine e a) = gameState e
      \<or> (\<exists>v. gameState (tickMine e a) = (gameState e)\<lparr>wood := v\<rparr>)
      \<or> (\<exists>v txt ty. gameState (tickMine e a) = GameState_addMessage ((gameState e)\<lparr>wood := v\<rparr>) txt ty)"
  proof (cases "\<exists>rl extracted. data (heap e ! a) = MineData rl extracted")
    case False
    then have "gameState (tickMine e a) = gameState e"
      by (cases "data (heap e ! a)") (simp_all add: tickMine_def Let_def split_beta)
    then show ?thesis by simp
  next
    case True
    then obtain rl extracted where MineData: "data (heap e ! a) = MineData rl extracted" by blast
    obtain ra w1 where sc: "fold sum_resources (scan_coords (struct_x (heap e ! a)) (struct_y (heap e ! a)) 4)
             (\<lparr>stone = 0, iron = 0, uranium = 0\<rparr>, world e) = (ra, w1)"
      by (cases "fold sum_resources (scan_coords (struct_x (heap e ! a)) (struct_y (heap e ! a)) 4)
             (\<lparr>stone = 0, iron = 0, uranium = 0\<rparr>, world e)")
    show ?thesis
      by (simp add: tickMine_def sc MineData Let_def gameState_addMessage) blast
  qed
  then show ?thesis by (auto simp: GameState_addMessage_def Let_def)
qed

text \<open>
  C7, amended. A mine's tick changes no tile: every tile, stored or yet to be generated, is
  after it what it was before (so are its stone, iron and uranium), and the stored tiles stay
  stored. What may change is: the store of tiles, where the tiles of the 9 x 9 scan square not
  yet stored are generated; the data of the mine itself; and of the game state the wood and the
  message log (an upgrade adds a message). The map of structures, the other structure objects,
  the mine's type, coordinates and level, and the money, food, population, employment, tax
  rate and time stay as they were.
\<close>

theorem C7_mine_frame:
  "(\<forall>px py. fst (getTile (world (tickMine e a)) px py) = fst (getTile (world e) px py))
   \<and> (\<forall>k t. map_of (tiles (world e)) k = Some t \<longrightarrow> map_of (tiles (world (tickMine e a))) k = Some t)
   \<and> world (tickMine e a) = visit (scan_coords (struct_x (heap e ! a)) (struct_y (heap e ! a)) 4) (world e)
   \<and> structures (tickMine e a) = structures e
   \<and> length (heap (tickMine e a)) = length (heap e)
   \<and> (\<forall>b. b \<noteq> a \<longrightarrow> heap (tickMine e a) ! b = heap e ! b)
   \<and> (\<exists>d. heap (tickMine e a) = (heap e)[a := (heap e ! a)\<lparr>data := d\<rparr>])
   \<and> money (gameState (tickMine e a)) = money (gameState e)
   \<and> food (gameState (tickMine e a)) = food (gameState e)
   \<and> population (gameState (tickMine e a)) = population (gameState e)
   \<and> employed (gameState (tickMine e a)) = employed (gameState e)
   \<and> incomeTaxRate (gameState (tickMine e a)) = incomeTaxRate (gameState e)
   \<and> time (gameState (tickMine e a)) = time (gameState e)"
proof -
  have "\<exists>d. heap (tickMine e a) = (heap e)[a := (heap e ! a)\<lparr>data := d\<rparr>]"
    using heap_tickMine [of e a] by blast
  then show ?thesis
    using gameState_tickMine [of e a]
    by (simp add: world_tickMine getTile_visit map_of_visit_keep structures_tickMine
          length_heap_tickMine heap_tickMine_other)
qed

text \<open>The mine of \<open>mine_economy\<close> and the tile \<open>(3, 4)\<close> of its scan square.\<close>

theorem C7_mine_frame_witness:
  "resources (fst (getTile (world (tickMine mine_economy 0)) 3 4))
     = resources (fst (getTile (world mine_economy) 3 4))
   \<and> structures (tickMine mine_economy 0) = structures mine_economy
   \<and> money (gameState (tickMine mine_economy 0)) = money (gameState mine_economy)"
proof -
  note frame = C7_mine_frame [of mine_economy 0]
  have "fst (getTile (world (tickMine mine_economy 0)) 3 4) = fst (getTile (world mine_economy) 3 4)"
    using frame [THEN conjunct1] by blast
  then show ?thesis using frame by metis
qed

lemma fst_fold_sum_resources:
  "stone (fst (fold sum_resources ks (r, w))) = stone r + sum_list (map (\<lambda>t. stone (resources t)) (tiles_at w ks))"
proof (induction ks arbitrary: r w)
  case Nil
  show ?case by (simp add: tiles_at_def)
next
  case (Cons k ks)
  define tile where "tile = fst (getTile w (fst k) (snd k))"
  define w1 where "w1 = snd (getTile w (fst k) (snd k))"
  define r1 where "r1 = \<lparr>stone = stone r + stone (resources tile), iron = iron r + iron (resources tile),
             uranium = uranium r + uranium (resources tile)\<rparr>"
  have step: "fold sum_resources (k # ks) (r, w) = fold sum_resources ks (r1, w1)"
    by (simp add: sum_resources_def split_beta r1_def w1_def tile_def)
  have "tiles_at w1 ks = tiles_at w ks"
    by (simp add: tiles_at_def w1_def getTile_getTile)
  then show ?case unfolding step Cons.IH [of r1 w1]
    by (simp add: r1_def) (simp add: tiles_at_def tile_def)
qed

lemma stone_generated: "50 \<le> stone (resources (fst (generateTile w px py)))"
proof -
  have "resources (fst (generateTile w px py)) = resources_of w px py (altitude (fst (generateTile w px py)))"
    by (simp add: generateTile_def Let_def generateForest_resources generateForest_altitude
          generateResources_altitude resources_of_def)
  then show ?thesis using nextInt_range [of 50 150] by (simp add: resources_of_eq)
qed

lemma stone_new_World: "50 \<le> stone (resources (fst (getTile (new_World n) px py)))"
  by (simp add: getTile_def new_World_def stone_generated)

lemma scan_stone_new_World:
  "0 < stone (fst (fold sum_resources (scan_coords cx cy 4) (\<lparr>stone = 0, iron = 0, uranium = 0\<rparr>, new_World n)))"
proof -
  have pos: "0 \<le> sum_list (map (\<lambda>t. stone (resources t)) (tiles_at (new_World n) ks))" for ks
    using stone_new_World [of n] by (induction ks) (simp_all add: tiles_at_def order_trans [of 0 50])
  obtain k ks where ks: "scan_coords cx cy 4 = k # ks"
    by (cases "scan_coords cx cy 4") (simp_all add: scan_coords_def upto_eval [of "- 4"])
  have k: "50 \<le> stone (resources (fst (getTile (new_World n) (fst k) (snd k))))" by (rule stone_new_World)
  have "tiles_at (new_World n) (k # ks) = fst (getTile (new_World n) (fst k) (snd k)) # tiles_at (new_World n) ks"
    by (simp add: tiles_at_def)
  then show ?thesis unfolding ks fst_fold_sum_resources using pos [of ks] k by simp
qed

text \<open>
  C7 as stated fails in its last clause: the tick of a stone mine that has extracted 99 units
  extracts one more (every tile has at least 50 stone), upgrades the mine and logs
  \<open>Mine upgraded to iron extraction\<close>, so that more than the wood and the mine's data change.
\<close>

theorem C7_frame_counterexample:
  "messages (gameState (tickMine mine_economy 0)) \<noteq> messages (gameState mine_economy)"
proof -
  obtain ra w1 where sc: "fold sum_resources (scan_coords 0 (- 5) 4)
             (\<lparr>stone = 0, iron = 0, uranium = 0\<rparr>, new_World 3) = (ra, w1)"
    by (cases "fold sum_resources (scan_coords 0 (- 5) 4) (\<lparr>stone = 0, iron = 0, uranium = 0\<rparr>, new_World 3)")
  have "0 < stone ra" using scan_stone_new_World [of 0 "- 5" 3] by (simp add: sc)
  then show ?thesis
    by (simp add: tickMine_def mine_economy_def sc Let_def gameState_addMessage GameState_addMessage_def new_GameState_def)
qed

subsection \<open>Building and demolishing\<close>






lemma map_of_visit_stored: "map_of (tiles w) k = Some t \<Longrightarrow> map_of (tiles (visit ks w)) k = Some t"
  by (rule map_of_visit_keep)

lemma wf_economy_world_update:
  "wf_economy e \<Longrightarrow> wf_world w \<Longrightarrow> wf_economy (e\<lparr>world := w\<rparr>)"
  by (simp add: wf_economy_def)




subsection \<open>Saving and loading\<close>








subsection \<open>A save restored\<close>







subsection \<open>The invariants of a game\<close>















lemma wf_economy_gameState [simp]: "wf_economy (e\<lparr>gameState := gs\<rparr>) = wf_economy e"
  by (simp add: wf_economy_def)

lemma wf_economy_addMessage [simp]: "wf_economy (addMessage e txt ty) = wf_economy e"
  by (simp add: addMessage_def)


subsection \<open>The forest invariant\<close>






subsection \<open>Farms in a tick\<close>

lemma cleared_evolves:
  assumes "cleared w k" and "wf_world w" and "evolves T_tick w w'"
  shows "cleared w' k"
proof -
  obtain t where t: "map_of (tiles w) k = Some t" "structure t = None"
    using assms(1) by (auto simp: cleared_def split: option.splits)
  obtain t' where t': "map_of (tiles w') k = Some t'"
    using evolves_sound(5) [OF assms(3,2) T_tick_preorder, of k] t(1) by auto
  have "fst (getTile w (fst k) (snd k)) = t" "fst (getTile w' (fst k) (snd k)) = t'"
    using getTile_cached [of w "fst k" "snd k" t] getTile_cached [of w' "fst k" "snd k" t'] t t' by simp_all
  then have "T_tick t t'"
    using evolves_sound(4) [OF assms(3,2) T_tick_preorder, of "fst k" "snd k"] by simp
  then show ?thesis using t(2) t' by (auto simp: cleared_def T_tick_def)
qed

lemma cleared_destroyStructure:
  assumes "wf_world (world e)" and "map_of (structures e) (px, py) = Some a"
  shows "cleared (world (destroyStructure e px py)) (px, py)"
proof -
  have "tile_key ((fst (getTile (world e) px py))\<lparr>structure := None\<rparr>) = (px, py)"
    using wf_world_getTile_key [OF assms(1), of px py] by (simp add: tile_key_def)
  then show ?thesis using assms(2)
    by (simp add: destroyStructure_def split_beta cleared_def map_of_set_tile)
qed

lemma distinct_entry: "distinct (map fst al) \<Longrightarrow> (k, a) \<in> set al \<Longrightarrow> (k, b) \<in> set al \<Longrightarrow> a = b"
  by (meson eq_key_imp_eq_value)

lemma tick_farms_bankrupt:
  assumes "netIncome e \<le> 0" and "wf_world (world e)" and "distinct (map fst (structures e))"
    and "set l \<subseteq> set (structures e)" and "distinct (map fst l)"
    and "\<forall>ka \<in> set l. (struct_x (heap e ! snd ka), struct_y (heap e ! snd ka)) = fst ka"
  shows "\<exists>e'. tick_farms l (e, fi, fc) = (e', fi, fc)
     \<and> structures e' = filter (\<lambda>ka. \<not> (ka \<in> set l \<and> is_farm (heap e) ka)) (structures e)
     \<and> heap e' = heap e
     \<and> GameState_toJSON (gameState e') = GameState_toJSON (gameState e)
     \<and> evolves T_tick (world e) (world e')
     \<and> (\<forall>ka \<in> set l. is_farm (heap e) ka \<longrightarrow> cleared (world e') (fst ka))"
  using assms
proof (induction l arbitrary: e)
  case Nil
  show ?case by (simp add: ev_refl)
next
  case (Cons ka rest)
  obtain k a where ka: "ka = (k, a)" by (cases ka)
  have mem: "(k, a) \<in> set (structures e)" using Cons.prems(4) by (simp add: ka)
  have coords: "(struct_x (heap e ! a), struct_y (heap e ! a)) = k" using Cons.prems(6) by (simp add: ka)
  have rest: "set rest \<subseteq> set (structures e)" "distinct (map fst rest)"
    "\<forall>ka \<in> set rest. (struct_x (heap e ! snd ka), struct_y (heap e ! snd ka)) = fst ka"
    "k \<notin> fst ` set rest"
    using Cons.prems(4,5,6) by (auto simp: ka)
  show ?case
  proof (cases "struct_type (heap e ! a) = ''farm''")
    case False
    obtain e' where e': "tick_farms rest (e, fi, fc) = (e', fi, fc)"
      "structures e' = filter (\<lambda>ka. \<not> (ka \<in> set rest \<and> is_farm (heap e) ka)) (structures e)"
      "heap e' = heap e" "GameState_toJSON (gameState e') = GameState_toJSON (gameState e)"
      "evolves T_tick (world e) (world e')"
      "\<forall>ka \<in> set rest. is_farm (heap e) ka \<longrightarrow> cleared (world e') (fst ka)"
      using Cons.IH [OF Cons.prems(1,2,3) rest(1,2,3)] by blast
    have "filter (\<lambda>ka. \<not> (ka \<in> set rest \<and> is_farm (heap e) ka)) (structures e)
        = filter (\<lambda>ka'. \<not> (ka' \<in> set (ka # rest) \<and> is_farm (heap e) ka')) (structures e)"
      using False by (intro filter_cong) (auto simp: ka is_farm_def)
    then show ?thesis using e' False by (intro exI [of _ e']) (auto simp: ka is_farm_def)
  next
    case True
    define e1 where "e1 = addMessage (destroyStructure e (struct_x (heap e ! a)) (struct_y (heap e ! a)))
                ''Farm went bankrupt due to high taxes'' ''error''"
    have m: "map_of (structures e) k = Some a" using mem Cons.prems(3) by simp
    have s1: "structures e1 = AList.delete k (structures e)" "heap e1 = heap e"
      using coords by (simp_all add: e1_def structures_destroyStructure prod_eq_iff)
    have g1: "GameState_toJSON (gameState e1) = GameState_toJSON (gameState e)"
      by (simp add: e1_def gameState_addMessage)
    have ev1: "evolves T_tick (world e) (world e1)"
      using Cons.prems(2) by (simp add: e1_def evolves_destroyStructure)
    have wf1: "wf_world (world e1)" using evolves_sound(1) [OF ev1 Cons.prems(2) T_tick_preorder] .
    have c1: "cleared (world e1) k"
      using cleared_destroyStructure [OF Cons.prems(2), of "struct_x (heap e ! a)" "struct_y (heap e ! a)" a] m coords
      by (simp add: e1_def prod_eq_iff)
    have n1: "netIncome e1 \<le> 0" using Cons.prems(1) g1 by (simp add: netIncome_def GameState_toJSON_def)
    have sub1: "set rest \<subseteq> set (structures e1)"
      using rest(1,4) by (force simp: s1 AList.delete_eq)
    have d1: "distinct (map fst (structures e1))" using Cons.prems(3) by (simp add: s1 distinct_delete)
    obtain e' where e': "tick_farms rest (e1, fi, fc) = (e', fi, fc)"
      "structures e' = filter (\<lambda>ka. \<not> (ka \<in> set rest \<and> is_farm (heap e1) ka)) (structures e1)"
      "heap e' = heap e1" "GameState_toJSON (gameState e') = GameState_toJSON (gameState e1)"
      "evolves T_tick (world e1) (world e')"
      "\<forall>ka \<in> set rest. is_farm (heap e1) ka \<longrightarrow> cleared (world e') (fst ka)"
      using Cons.IH [OF n1 wf1 d1 sub1 rest(2)] rest(3) by (auto simp: s1)
    have del: "AList.delete k rest = rest" using rest(4) by (rule delete_id)
    have run: "tick_farms (ka # rest) (e, fi, fc) = (e', fi, fc)"
      using True Cons.prems(1) e'(1) coords del
      by (simp add: ka netIncome_def e1_def prod_eq_iff)
    have "filter (\<lambda>ka. \<not> (ka \<in> set rest \<and> is_farm (heap e) ka)) (AList.delete k (structures e))
        = filter (\<lambda>ka'. \<not> (ka' \<in> set (ka # rest) \<and> is_farm (heap e) ka')) (structures e)"
      unfolding AList.delete_eq filter_filter
      using True distinct_entry [OF Cons.prems(3) mem]
      by (intro filter_cong) (auto simp: ka is_farm_def)
    then have st: "structures e' = filter (\<lambda>ka'. \<not> (ka' \<in> set (ka # rest) \<and> is_farm (heap e) ka')) (structures e)"
      by (simp add: e'(2) s1)
    have "cleared (world e') k" using c1 wf1 e'(5) by (rule cleared_evolves)
    then have cl: "\<forall>ka' \<in> set (ka # rest). is_farm (heap e) ka' \<longrightarrow> cleared (world e') (fst ka')"
      using e'(6) by (simp add: ka s1)
    show ?thesis
      using run st cl e'(3,4) s1(2) g1 evolves_trans [OF e'(5) ev1]
      by (intro exI [of _ e']) simp
  qed
qed

lemma tick_rest: "tick e = tick_rest (tick_income e)"
  by (simp add: tick_def tick_rest_def)

lemma farm_update_fields:
  "length (farm_update ka h) = length h"
  "struct_type (farm_update ka h ! b) = struct_type (h ! b)"
  "level (farm_update ka h ! b) = level (h ! b)"
  by (cases "snd ka < length h"; cases "b = snd ka";
      simp add: farm_update_def nth_list_update list_update_beyond)+

lemma is_farm_farm_update: "is_farm (farm_update ka h) = is_farm h"
  by (rule ext) (simp add: is_farm_def farm_update_fields)

lemma set_foodPerTick_idem [simp]: "set_foodPerTick v (set_foodPerTick v d) = set_foodPerTick v d"
  by (cases d) (simp_all add: set_foodPerTick_def)

lemma data_farm_update:
  "b < length h \<Longrightarrow> data (farm_update ka h ! b) =
     (if snd ka = b \<and> is_farm h ka then set_foodPerTick (1 + 0.5 * (level (h ! b) - 1)) (data (h ! b))
      else data (h ! b))"
  by (auto simp: farm_update_def nth_list_update)

lemma fold_farm_update_fields:
  "length (fold farm_update l h) = length h \<and> is_farm (fold farm_update l h) = is_farm h
   \<and> level (fold farm_update l h ! b) = level (h ! b)"
  by (induction l arbitrary: h) (simp_all add: farm_update_fields is_farm_farm_update)

lemma fold_farm_update_data:
  "b < length h \<Longrightarrow> data (fold farm_update l h ! b) =
     (if \<exists>ka \<in> set l. snd ka = b \<and> is_farm h ka
      then set_foodPerTick (1 + 0.5 * (level (h ! b) - 1)) (data (h ! b))
      else data (h ! b))"
proof (induction l arbitrary: h)
  case Nil
  show ?case by simp
next
  case (Cons ka l)
  have "b < length (farm_update ka h)" using Cons.prems by (simp add: farm_update_fields)
  from Cons.IH [OF this] show ?case
    using Cons.prems by (auto simp: is_farm_farm_update farm_update_fields data_farm_update)
qed

lemma tick_farms_solvent:
  assumes "\<not> netIncome e \<le> 0"
  shows "tick_farms l (e, fi, fc) =
     (e\<lparr>heap := fold farm_update l (heap e)\<rparr>,
      fi + real (length (filter (is_farm (heap e)) l)) * netIncome e,
      fc + length (filter (is_farm (heap e)) l))"
  using assms
proof (induction l arbitrary: e fi fc)
  case Nil
  show ?case by simp
next
  case (Cons ka l)
  obtain k a where ka: "ka = (k, a)" by (cases ka)
  define e1 where "e1 = e\<lparr>heap := farm_update ka (heap e)\<rparr>"
  have n1: "\<not> netIncome e1 \<le> 0" "netIncome e1 = netIncome e"
    using Cons.prems by (simp_all add: e1_def netIncome_def)
  have f1: "is_farm (heap e1) = is_farm (heap e)" by (simp add: e1_def is_farm_farm_update)
  note IH = Cons.IH [OF n1(1), unfolded f1 n1(2)]
  show ?case
  proof (cases "is_farm (heap e) ka")
    case True
    have "tick_farms (ka # l) (e, fi, fc) = tick_farms l (e1, fi + netIncome e, fc + 1)"
      using True Cons.prems by (simp add: ka is_farm_def netIncome_def e1_def farm_update_def)
    also have "\<dots> = (e1\<lparr>heap := fold farm_update l (heap e1)\<rparr>,
        (fi + netIncome e) + real (length (filter (is_farm (heap e)) l)) * netIncome e,
        (fc + 1) + length (filter (is_farm (heap e)) l))"
      by (rule IH)
    also have "\<dots> = (e\<lparr>heap := fold farm_update (ka # l) (heap e)\<rparr>,
        fi + real (length (filter (is_farm (heap e)) (ka # l))) * netIncome e,
        fc + length (filter (is_farm (heap e)) (ka # l)))"
      using True by (simp add: e1_def algebra_simps)
    finally show ?thesis .
  next
    case False
    have u: "farm_update ka (heap e) = heap e" using False by (simp add: farm_update_def)
    then have "e1 = e" by (simp add: e1_def)
    moreover have "tick_farms (ka # l) (e, fi, fc) = tick_farms l (e, fi, fc)"
      using False by (simp add: ka is_farm_def)
    ultimately show ?thesis using False IH [of fi fc] by (simp add: u)
  qed
qed

lemma money_frames:
  "money (gameState (tick_consume e)) = money (gameState e)"
  "money (gameState (tick_starve e)) = money (gameState e)"
  "money (gameState (tick_grow e)) = money (gameState e)"
  "money (gameState (tick_lumber a e)) = money (gameState e)"
  "money (gameState (tickMine e a)) = money (gameState e)"
  using gameState_tickMine [of e a]
  by (simp_all add: tick_consume_def tick_starve_def tick_grow_def tick_lumber_def Let_def split_beta
        gameState_addMessage GameState_addMessage_def)

lemma money_tick_lumbers: "money (gameState (tick_lumbers e)) = money (gameState e)"
proof -
  have "money (gameState (fold tick_lumber as e)) = money (gameState e)" for as
    by (induction as arbitrary: e) (simp_all add: money_frames)
  then show ?thesis by (simp add: tick_lumbers_def Let_def)
qed

lemma money_tick_mines: "money (gameState (tick_mines e)) = money (gameState e)"
proof -
  have "money (gameState (fold (\<lambda>a e1. if struct_type (heap e1 ! a) = ''mine'' then tickMine e1 a else e1) as e))
      = money (gameState e)" for as
    by (induction as arbitrary: e) (simp_all add: money_frames)
  then show ?thesis by (simp add: tick_mines_def)
qed

lemma money_tick_rest: "money (gameState (tick_rest e)) = money (gameState e)"
  by (simp add: tick_rest_def money_tick_mines money_tick_lumbers money_frames)

lemma structures_tick_rest: "structures (tick_rest e) = structures e"
  by (simp add: tick_rest_def tick_mines_structures tick_lumbers_frame)

lemma evolves_tick_rest:
  assumes "wf_world (world e)"
  shows "evolves T_tick (world e) (world (tick_rest e))"
proof -
  define e1 where "e1 = tick_grow (tick_starve (tick_consume e))"
  have w1: "world e1 = world e" by (simp add: e1_def)
  have 2: "evolves T_tick (world e1) (world (tick_lumbers e1))"
    using assms by (simp add: w1 [symmetric] evolves_tick_lumbers_tick)
  have wf2: "wf_world (world (tick_lumbers e1))"
    using evolves_sound(1) [OF 2 _ T_tick_preorder] assms by (simp add: w1)
  have 3: "evolves T_tick (world (tick_lumbers e1)) (world (tick_mines (tick_lumbers e1)))"
    using wf2 by (rule evolves_tick_mines [OF T_tick_preorder])
  show ?thesis using evolves_trans [OF 3 2] by (simp add: tick_rest_def e1_def [symmetric] w1)
qed

lemma heap_fold_mines_other:
  "struct_type (heap e ! b) \<noteq> ''mine'' \<Longrightarrow>
   heap (fold (\<lambda>a e1. if struct_type (heap e1 ! a) = ''mine'' then tickMine e1 a else e1) as e) ! b = heap e ! b"
proof (induction as arbitrary: e)
  case Nil
  show ?case by simp
next
  case (Cons a as)
  show ?case
  proof (cases "struct_type (heap e ! a) = ''mine''")
    case True
    then have ne: "b \<noteq> a" using Cons.prems by auto
    have "struct_type (heap (tickMine e a) ! b) \<noteq> ''mine''"
      using Cons.prems by (simp add: type_heap_tickMine)
    from Cons.IH [OF this] show ?thesis using True ne by (simp add: heap_tickMine_other)
  next
    case False
    then show ?thesis using Cons.IH [OF Cons.prems] by simp
  qed
qed

lemma heap_tick_rest_other:
  "struct_type (heap e ! b) \<noteq> ''mine'' \<Longrightarrow> heap (tick_rest e) ! b = heap e ! b"
  using heap_fold_mines_other [of "tick_lumbers (tick_grow (tick_starve (tick_consume e)))" b]
  by (simp add: tick_rest_def tick_mines_def tick_lumbers_frame)

lemma heap_step_tick: "heap_step (heap e) (heap (tick e))"
proof -
  define e1 where "e1 = tick_grow (tick_starve (tick_consume (tick_income e)))"
  have "heap_step (heap e1) (heap (tick e))"
    using tick_mines_heap_step [of "tick_lumbers e1"] by (simp add: tick_def e1_def tick_lumbers_frame)
  moreover have "heap_step (heap e) (heap e1)" using tick_income_frame [of e] by (simp add: e1_def)
  ultimately show ?thesis by (blast intro: heap_step_trans)
qed

lemma farms_bankrupt:
  assumes "wf_economy e" and "netIncome e \<le> 0"
  shows "structures (tick e) = filter (\<lambda>ka. \<not> is_farm (heap e) ka) (structures e)"
    and "\<forall>ka \<in> set (farms e). cleared (world (tick e)) (fst ka)"
    and "money (gameState (tick e)) = money (gameState e)"
proof -
  have wfw: "wf_world (world e)" and d: "distinct (map fst (structures e))"
    and c: "\<forall>ka \<in> set (structures e). (struct_x (heap e ! snd ka), struct_y (heap e ! snd ka)) = fst ka"
    using assms(1) by (simp_all add: wf_economy_def list_all_iff wf_entry_def)
  obtain e' where e': "tick_farms (structures e) (e, 0, 0) = (e', 0, 0)"
      "structures e' = filter (\<lambda>ka. \<not> (ka \<in> set (structures e) \<and> is_farm (heap e) ka)) (structures e)"
      "heap e' = heap e" "GameState_toJSON (gameState e') = GameState_toJSON (gameState e)"
      "evolves T_tick (world e) (world e')"
      "\<forall>ka \<in> set (structures e). is_farm (heap e) ka \<longrightarrow> cleared (world e') (fst ka)"
    using tick_farms_bankrupt [OF assms(2) wfw d subset_refl d c, of 0 0] by blast
  define e1 where "e1 = tick_income e"
  have e1: "structures e1 = structures e'" "world e1 = world e'" "money (gameState e1) = money (gameState e)"
    using e'(4) by (simp_all add: e1_def tick_income_def e'(1) GameState_toJSON_def)
  have wf1: "wf_world (world e1)" using evolves_sound(1) [OF e'(5) wfw T_tick_preorder] by (simp add: e1)
  have "filter (\<lambda>ka. \<not> (ka \<in> set (structures e) \<and> is_farm (heap e) ka)) (structures e)
      = filter (\<lambda>ka. \<not> is_farm (heap e) ka) (structures e)"
    by (intro filter_cong) auto
  then show "structures (tick e) = filter (\<lambda>ka. \<not> is_farm (heap e) ka) (structures e)"
    by (simp add: tick_rest structures_tick_rest e1_def [symmetric] e1 e'(2))
  show "money (gameState (tick e)) = money (gameState e)"
    by (simp add: tick_rest money_tick_rest e1_def [symmetric] e1)
  have "cleared (world (tick_rest e1)) (fst ka)" if "ka \<in> set (farms e)" for ka
  proof -
    have "cleared (world e1) (fst ka)" using that e'(6) by (simp add: farms_def e1)
    then show ?thesis using wf1 evolves_tick_rest [OF wf1] by (rule cleared_evolves)
  qed
  then show "\<forall>ka \<in> set (farms e). cleared (world (tick e)) (fst ka)"
    by (simp add: tick_rest e1_def)
qed

lemma farms_solvent:
  assumes "wf_economy e" and "0 < netIncome e"
  shows "structures (tick e) = structures e"
    and "money (gameState (tick e)) = money (gameState e) + real (length (farms e)) * netIncome e"
    and "\<forall>ka \<in> set (farms e). \<exists>p. data (heap (tick e) ! snd ka) = FarmData p (1 + 0.5 * (level (heap e ! snd ka) - 1))"
proof -
  define e1 where "e1 = tick_income e"
  have n: "\<not> netIncome e \<le> 0" using assms(2) by simp
  have e1: "e1 = e\<lparr>heap := fold farm_update (structures e) (heap e),
                    gameState := (gameState e)\<lparr>money := money (gameState e) + real (length (farms e)) * netIncome e\<rparr>\<rparr>"
    by (simp add: e1_def tick_income_def tick_farms_solvent [OF n] farms_def)
  show "structures (tick e) = structures e"
    by (simp add: tick_rest structures_tick_rest e1_def [symmetric]) (simp add: e1)
  show "money (gameState (tick e)) = money (gameState e) + real (length (farms e)) * netIncome e"
    by (simp add: tick_rest money_tick_rest e1_def [symmetric]) (simp add: e1)
  have "\<exists>p. data (heap (tick_rest e1) ! snd ka) = FarmData p (1 + 0.5 * (level (heap e ! snd ka) - 1))"
    if "ka \<in> set (farms e)" for ka
  proof -
    have mem: "ka \<in> set (structures e)" and farm: "is_farm (heap e) ka"
      using that by (simp_all add: farms_def)
    have entry: "wf_entry (heap e) ka" using assms(1) mem by (simp add: wf_economy_def list_all_iff)
    then have a: "snd ka < length (heap e)" and sh: "shape_ok (heap e ! snd ka)"
      by (simp_all add: wf_entry_def)
    obtain p f where pf: "data (heap e ! snd ka) = FarmData p f"
      using sh farm
      by (cases "data (heap e ! snd ka)")
         (simp_all add: shape_ok_def is_farm_def getDefaultStructureData_def same_shape_def)
    have "data (heap e1 ! snd ka) = set_foodPerTick (1 + 0.5 * (level (heap e ! snd ka) - 1)) (data (heap e ! snd ka))"
      using fold_farm_update_data [OF a, of "structures e"] mem farm by (auto simp: e1)
    then have d1: "data (heap e1 ! snd ka) = FarmData p (1 + 0.5 * (level (heap e ! snd ka) - 1))"
      by (simp add: pf set_foodPerTick_def)
    have "is_farm (heap e1) ka" using farm fold_farm_update_fields [of "structures e" "heap e"] by (simp add: e1)
    then have "struct_type (heap e1 ! snd ka) \<noteq> ''mine''" by (simp add: is_farm_def)
    then have "heap (tick_rest e1) ! snd ka = heap e1 ! snd ka" by (rule heap_tick_rest_other)
    then show ?thesis using d1 by simp
  qed
  then show "\<forall>ka \<in> set (farms e). \<exists>p. data (heap (tick e) ! snd ka) = FarmData p (1 + 0.5 * (level (heap e ! snd ka) - 1))"
    by (simp add: tick_rest e1_def)
qed

text \<open>
  C6. In a tick of a well-formed economy, with the net income \<open>10 - 10 * incomeTaxRate\<close> of
  a farm: when it is \<open>\<le> 0\<close>, every farm is removed from the map of structures (the other
  structures stay, in their order), its tile is stored with no structure, and the money does
  not change; when it is positive, no structure is removed, the money grows by the net income
  of every farm, and every farm has its \<open>foodPerTick\<close> set to \<open>1 + 0.5 * (level - 1)\<close>. With a
  tax rate of 1 the tick leaves no farm.
\<close>

theorem C6_farms:
  assumes "wf_economy e"
  shows "(netIncome e \<le> 0 \<longrightarrow>
            structures (tick e) = filter (\<lambda>ka. \<not> is_farm (heap e) ka) (structures e)
            \<and> (\<forall>ka \<in> set (farms e). cleared (world (tick e)) (fst ka))
            \<and> money (gameState (tick e)) = money (gameState e))
       \<and> (0 < netIncome e \<longrightarrow>
            structures (tick e) = structures e
            \<and> money (gameState (tick e)) = money (gameState e) + real (length (farms e)) * netIncome e
            \<and> (\<forall>ka \<in> set (farms e). \<exists>p. data (heap (tick e) ! snd ka)
                  = FarmData p (1 + 0.5 * (level (heap e ! snd ka) - 1))))
       \<and> (incomeTaxRate (gameState e) = 1 \<longrightarrow> farms (tick e) = [])"
proof -
  have "farms (tick e) = []" if "incomeTaxRate (gameState e) = 1"
  proof -
    have n: "netIncome e \<le> 0" using that by (simp add: netIncome_def)
    have "\<not> is_farm (heap (tick e)) ka" if "ka \<in> set (structures e)" "\<not> is_farm (heap e) ka" for ka
    proof -
      have "snd ka < length (heap e)"
        using assms that(1) by (simp add: wf_economy_def list_all_iff wf_entry_def)
      then have "struct_type (heap (tick e) ! snd ka) = struct_type (heap e ! snd ka)"
        using heap_step_tick [of e] by (simp add: heap_step_def)
      then show ?thesis using that(2) by (simp add: is_farm_def)
    qed
    then show ?thesis by (auto simp: farms_def farms_bankrupt(1) [OF assms n] filter_empty_conv)
  qed
  then show ?thesis using farms_bankrupt [OF assms] farms_solvent [OF assms] by blast
qed

lemma wf_farm_economy: "wf_economy (farm_economy r)"
  using key_generateTile [of "new_World 3" 0 "- 5"]
  by (simp add: farm_economy_def wf_economy_def wf_world_def wf_entry_def shape_ok_def
        getDefaultStructureData_def same_shape_def tile_key_def)

text \<open>The farm under a tax of 100% is removed and its tile cleared; under 10% it stays, earns 9
  and gets a \<open>foodPerTick\<close> of 1.\<close>

theorem C6_farms_witness:
  "wf_economy (farm_economy 1) \<and> netIncome (farm_economy 1) \<le> 0
   \<and> structures (tick (farm_economy 1)) = []
   \<and> cleared (world (tick (farm_economy 1))) (0, - 5)
   \<and> wf_economy (farm_economy 0.1) \<and> 0 < netIncome (farm_economy 0.1)
   \<and> money (gameState (tick (farm_economy 0.1))) = 509
   \<and> (\<exists>p. data (heap (tick (farm_economy 0.1)) ! 0) = FarmData p 1)"
proof -
  have f: "farms (farm_economy r) = [((0, - 5), 0)]" "structures (farm_economy r) = [((0, - 5), 0)]"
    "is_farm (heap (farm_economy r)) ((0, - 5), 0)"
    "level (heap (farm_economy r) ! 0) = 1" for r
    by (simp_all add: farms_def farm_economy_def is_farm_def)
  have n: "netIncome (farm_economy 1) \<le> 0" "netIncome (farm_economy 0.1) = 9"
    "money (gameState (farm_economy 0.1)) = 500"
    by (simp_all add: netIncome_def farm_economy_def new_GameState_def)
  have p: "0 < netIncome (farm_economy 0.1)" by (simp add: n)
  note b = C6_farms [OF wf_farm_economy [of 1], THEN conjunct1, rule_format, OF n(1)]
  note s = C6_farms [OF wf_farm_economy [of "0.1"], THEN conjunct2, THEN conjunct1, rule_format, OF p]
  have "structures (tick (farm_economy 1)) = []" using b by (simp add: f)
  moreover have "cleared (world (tick (farm_economy 1))) (0, - 5)" using b by (simp add: f)
  moreover have "money (gameState (tick (farm_economy 0.1))) = 509" using s by (simp add: f n)
  moreover have "\<exists>p. data (heap (tick (farm_economy 0.1)) ! 0) = FarmData p 1" using s by (simp add: f)
  ultimately show ?thesis using n(1) p by (simp add: wf_farm_economy)
qed

lemma unknown_type_defaults:
  assumes "structureType \<notin> {''house'', ''farm'', ''mine'', ''lumber''}" and "\<not> inherited structureType"
  shows "getStructureCost structureType = Some \<lparr>cost_money = 0, cost_wood = 0, cost_food = 0\<rparr>"
    and "getMaxAltitudeDiff structureType = Some 1"
    and "getDefaultStructureData structureType = Some EmptyData"
  using assms by (simp_all add: getStructureCost_def getMaxAltitudeDiff_def getDefaultStructureData_def)

lemma canBuild_land_game:
  "canBuildStructure (world land_game) (land_tile 0 (- 5) 5) ty = (CanBuild, world land_game)"
  by (simp add: canBuildStructure_def land_game_def new_Economy_def land_tile_def new_Tile_def
        getTile_def too_steep_def getMaxAltitudeDiff_def)

text \<open>
  C9. On the level, empty land tile of \<open>land_game\<close> the type \<open>castle\<close> is built as the claim
  says: free of charge, at level 1, with empty data. The type \<open>constructor\<close> is outside the
  four types too, but the three tables answer with the member of that name which they inherit:
  there is no cost of 0, no limit of 1 and no empty data, and the build stores \<open>NaN\<close> as the
  money, the wood and the food.
\<close>

theorem C9_inherited_type:
  "getStructureCost ''constructor'' = None
   \<and> getMaxAltitudeDiff ''constructor'' = None
   \<and> getDefaultStructureData ''constructor'' = None
   \<and> buildStructure land_game (land_tile 0 (- 5) 5) ''constructor'' = Inl NaN_stored
   \<and> build_outcome land_game (land_tile 0 (- 5) 5) ''castle'' = Some (Success 0)
   \<and> getStructureCost ''castle'' = Some \<lparr>cost_money = 0, cost_wood = 0, cost_food = 0\<rparr>
   \<and> getMaxAltitudeDiff ''castle'' = Some 1
   \<and> getDefaultStructureData ''castle'' = Some EmptyData"
proof -
  have c: "getStructureCost ''constructor'' = None" "getMaxAltitudeDiff ''constructor'' = None"
    "getDefaultStructureData ''constructor'' = None"
    by (simp_all add: getStructureCost_def getMaxAltitudeDiff_def getDefaultStructureData_def
          inherited_def Object_prototype_members_def)
  have d: "getStructureCost ''castle'' = Some \<lparr>cost_money = 0, cost_wood = 0, cost_food = 0\<rparr>"
    "getMaxAltitudeDiff ''castle'' = Some 1" "getDefaultStructureData ''castle'' = Some EmptyData"
    by (simp_all add: getStructureCost_def getMaxAltitudeDiff_def getDefaultStructureData_def
          inherited_def Object_prototype_members_def)
  have s: "structure (land_tile 0 (- 5) 5) = None" "heap land_game = []"
    "money (gameState land_game) = 500" "wood (gameState land_game) = 100" "food (gameState land_game) = 50"
    by (simp_all add: land_tile_def new_Tile_def land_game_def new_Economy_def new_GameState_def)
  have "buildStructure land_game (land_tile 0 (- 5) 5) ''constructor'' = Inl NaN_stored"
    by (simp add: buildStructure_def c less_cost_def canBuild_land_game s)
  moreover have "build_outcome land_game (land_tile 0 (- 5) 5) ''castle'' = Some (Success 0)"
    by (simp add: build_outcome_def buildStructure_def d less_cost_def canBuild_land_game s Let_def)
  ultimately show ?thesis using c d by simp
qed





end
